theory Spec2Isabelle
  imports Main "HOL-Library.Word"
begin

section \<open>Python values, exceptions and the z3 interface\<close>

text \<open>
  Every exception the instruction emulators can raise is a value; an emulator returns
  \<open>error + 'a\<close> with \<open>Inl\<close> for the raised exception. \<open>SystemExit\<close> is Python's
  \<^verbatim>\<open>exit(msg)\<close>.
\<close>

datatype error =
    IndexError | KeyError | ValueError | TypeError | AssertionError | AttributeError
  | UnboundLocalError | Z3Exception | StructError
  | UnsupportInstructionError | UnsupportGlobalTypeError
  | ProcSuccessTermination int | ProcFailTermination
  | SystemExit string

definition bnd :: "error + 'a \<Rightarrow> ('a \<Rightarrow> error + 'b) \<Rightarrow> error + 'b" where
  "bnd m f = (case m of Inl e \<Rightarrow> Inl e | Inr x \<Rightarrow> f x)"

definition py_assert :: "bool \<Rightarrow> error + unit" where
  "py_assert b = (if b then Inr () else Inl AssertionError)"

text \<open>
  z3 expressions are terms. Literals have constructors of their own (\<open>BoolVal\<close> for the
  literals true and false, \<open>BitVecNum\<close> for a bit-vector numeral with its width,
  \<open>FPNum\<close> for a float numeral: sign bit, the exponent and fraction fields read as
  one number, exponent and significand widths); \<open>Const\<close> is a named symbolic constant and \<open>App\<close> any other application,
  with the sort of its result. \<open>PyNone\<close> is Python's \<^verbatim>\<open>None\<close>, which a dictionary
  of locals can store and the stack can therefore receive.
\<close>

datatype sort = BoolSort | BitVecSort nat | FPSort nat nat | RMSort

datatype expr =
    PyNone
  | BoolVal bool
  | BitVecNum int nat
  | FPNum bool nat nat nat
  | Const string sort
  | App string sort "expr list"

fun sort_of :: "expr \<Rightarrow> sort option" where
  "sort_of PyNone = None"
| "sort_of (BoolVal b) = Some BoolSort"
| "sort_of (BitVecNum v w) = Some (BitVecSort w)"
| "sort_of (FPNum sg m eb sb) = Some (FPSort eb sb)"
| "sort_of (Const n t) = Some t"
| "sort_of (App f t args) = Some t"

definition is_bv :: "expr \<Rightarrow> bool" where
  "is_bv e = (case sort_of e of Some (BitVecSort w) \<Rightarrow> True | _ \<Rightarrow> False)"

definition is_bool :: "expr \<Rightarrow> bool" where
  "is_bool e = (sort_of e = Some BoolSort)"

definition is_true :: "expr \<Rightarrow> bool" where
  "is_true e = (e = BoolVal True)"

definition is_false :: "expr \<Rightarrow> bool" where
  "is_false e = (e = BoolVal False)"

fun is_bv_value :: "expr \<Rightarrow> bool" where
  "is_bv_value (BitVecNum v w) = True"
| "is_bv_value _ = False"

fun as_long :: "expr \<Rightarrow> error + int" where
  "as_long (BitVecNum v w) = Inr v"
| "as_long _ = Inl AttributeError"

text \<open>\<^verbatim>\<open>e.size()\<close>, \<^verbatim>\<open>e.ebits()\<close>, \<^verbatim>\<open>e.sbits()\<close>: attributes of bit-vector and float
  expressions only.\<close>

definition size_of :: "expr \<Rightarrow> error + nat" where
  "size_of e = (case sort_of e of Some (BitVecSort w) \<Rightarrow> Inr w | _ \<Rightarrow> Inl AttributeError)"

definition ebits :: "expr \<Rightarrow> error + nat" where
  "ebits e = (case sort_of e of Some (FPSort eb sb) \<Rightarrow> Inr eb | _ \<Rightarrow> Inl AttributeError)"

definition sbits :: "expr \<Rightarrow> error + nat" where
  "sbits e = (case sort_of e of Some (FPSort eb sb) \<Rightarrow> Inr sb | _ \<Rightarrow> Inl AttributeError)"

text \<open>A float numeral is a NaN when its exponent field is all ones and its fraction
  field is not zero; the fraction has one bit less than the significand.\<close>

definition is_nan :: "nat \<Rightarrow> nat \<Rightarrow> nat \<Rightarrow> bool" where
  "is_nan m eb sb =
     ((m div 2 ^ (sb - 1)) mod 2 ^ eb = 2 ^ eb - 1 \<and> m mod 2 ^ (sb - 1) \<noteq> 0)"

text \<open>\<^verbatim>\<open>e.isPositive()\<close> exists on float numerals only; z3 answers false for a NaN
  whatever its sign bit.\<close>

fun isPositive :: "expr \<Rightarrow> error + bool" where
  "isPositive (FPNum sg m eb sb) = Inr (\<not> sg \<and> \<not> is_nan m eb sb)"
| "isPositive _ = Inl AttributeError"

definition BitVecVal :: "int \<Rightarrow> nat \<Rightarrow> expr" where
  "BitVecVal v w = BitVecNum (v mod 2 ^ w) w"

definition BitVec :: "string \<Rightarrow> nat \<Rightarrow> expr" where
  "BitVec n w = Const n (BitVecSort w)"

definition z3_Not :: "expr \<Rightarrow> expr" where
  "z3_Not e = App ''not'' BoolSort [e]"

definition z3_Or :: "expr list \<Rightarrow> expr" where
  "z3_Or es = App ''or'' BoolSort es"

text \<open>A comparison of a bit-vector expression with a Python integer, as \<^verbatim>\<open>select\<close>,
  \<^verbatim>\<open>br_if\<close> and \<^verbatim>\<open>if\<close> build it under the guard \<^verbatim>\<open>is_bv\<close>: the integer is coerced
  to a numeral of the expression's width. The guard excludes every other operand.\<close>

definition bv_cmp_int :: "string \<Rightarrow> expr \<Rightarrow> int \<Rightarrow> error + expr" where
  "bv_cmp_int f e i =
     (case sort_of e of
        Some (BitVecSort w) \<Rightarrow> Inr (App f BoolSort [e, BitVecVal i w])
      | _ \<Rightarrow> Inl Z3Exception)"

definition bv_binop :: "string \<Rightarrow> expr \<Rightarrow> expr \<Rightarrow> error + expr" where
  "bv_binop f a b =
     (case (sort_of a, sort_of b) of
        (Some (BitVecSort w), Some (BitVecSort w')) \<Rightarrow>
          if w = w' then Inr (App f (BitVecSort w) [a, b]) else Inl Z3Exception
      | _ \<Rightarrow> Inl Z3Exception)"

datatype check_result = sat | unsat | unknown

text \<open>
  The z3 library is outside the sources; its simplifier, its satisfiability check of a
  list of assertions, its printer and its parser of numeral strings are parameters of
  every emulator. So are the two ways a float constant is built: \<open>fp_of_str\<close> is
  \<^verbatim>\<open>FPVal(text, sort)\<close> on a decimal text, \<open>fp_of_hex\<close> is \<^verbatim>\<open>FPVal\<close> on the float that
  \<^verbatim>\<open>struct.unpack\<close> reads from the bytes of a hexadecimal text; both take the exponent
  and significand widths of the sort and may raise.
\<close>

record z3_api =
  simplify :: "expr \<Rightarrow> expr"
  check :: "expr list \<Rightarrow> check_result"
  str_of :: "expr \<Rightarrow> string"
  num_of_str :: "string \<Rightarrow> int option"
  fp_of_str :: "string \<Rightarrow> nat \<Rightarrow> nat \<Rightarrow> error + expr"
  fp_of_hex :: "string \<Rightarrow> nat \<Rightarrow> nat \<Rightarrow> error + expr"

text \<open>
  Modelled from the spec: \<^verbatim>\<open>one_time_query_cache\<close> of \<^verbatim>\<open>seewasm.arch.wasm.utils\<close>
  is not among the sources. The spec describes it as the satisfiability query of
  (path-constraint AND expression), memoised per state; the memo does not change the
  answer, so the model asks the solver.
\<close>

definition one_time_query_cache :: "z3_api \<Rightarrow> expr list \<Rightarrow> expr \<Rightarrow> check_result" where
  "one_time_query_cache z slv e = check z (slv @ [e])"

section \<open>Strings and byte strings\<close>

fun startswith :: "'a list \<Rightarrow> 'a list \<Rightarrow> bool" where
  "startswith s [] = True"
| "startswith [] (p # ps) = False"
| "startswith (c # cs) (p # ps) = (c = p \<and> startswith cs ps)"

text \<open>\<^verbatim>\<open>sub in s\<close> on strings.\<close>

fun contains :: "string \<Rightarrow> string \<Rightarrow> bool" where
  "contains sub [] = (sub = [])"
| "contains sub (c # cs) = (startswith (c # cs) sub \<or> contains sub cs)"

text \<open>\<^verbatim>\<open>s.split(c)\<close> for a one-character separator: never an empty list.\<close>

fun split_on :: "char \<Rightarrow> string \<Rightarrow> string list" where
  "split_on c [] = [[]]"
| "split_on c (x # xs) =
     (if x = c then [] # split_on c xs
      else (case split_on c xs of [] \<Rightarrow> [[x]] | w # ws \<Rightarrow> (x # w) # ws))"

text \<open>\<^verbatim>\<open>int.from_bytes(bs, byteorder='little')\<close>.\<close>

fun from_bytes_little :: "8 word list \<Rightarrow> nat" where
  "from_bytes_little [] = 0"
| "from_bytes_little (b # bs) = unat b + 256 * from_bytes_little bs"

section \<open>Execution states\<close>

text \<open>
  A Python dictionary is an association list with distinct keys: assignment replaces the
  value in place or appends the new key, \<^verbatim>\<open>pop(k)\<close> removes the key, \<^verbatim>\<open>len\<close> is
  the number of entries.
\<close>

type_synonym 'v dict = "(nat \<times> 'v) list"

fun dict_set :: "'v dict \<Rightarrow> nat \<Rightarrow> 'v \<Rightarrow> 'v dict" where
  "dict_set [] k v = [(k, v)]"
| "dict_set ((k', v') # d) k v = (if k' = k then (k, v) # d else (k', v') # dict_set d k v)"

fun dict_del :: "'v dict \<Rightarrow> nat \<Rightarrow> 'v dict" where
  "dict_del [] k = []"
| "dict_del ((k', v') # d) k = (if k' = k then d else (k', v') # dict_del d k)"

datatype gval = GInt int | GStr string | GExpr expr

text \<open>A saved caller frame:
  (caller function, resume block, saved stack, saved locals, return value expected).\<close>

type_synonym frame = "string \<times> string \<times> expr list \<times> expr dict \<times> bool"

text \<open>
  The symbolic stack is a Python list: the top of the stack is the last element.
  \<open>instr_cur_bb\<close> and \<open>instr_xref\<close> are \<^verbatim>\<open>state.instr.cur_bb\<close> and
  \<^verbatim>\<open>state.instr.xref\<close> (true in a condition when not empty); the solver is the list of
  the assertions added to it.
\<close>

record state =
  symbolic_stack :: "expr list"
  local_var :: "expr dict"
  globals :: "gval dict"
  solver :: "expr list"
  context_stack :: "frame list"
  current_func_name :: string
  current_bb_name :: string
  edge_type :: string
  call_indirect_callee :: string
  instr_cur_bb :: string
  instr_xref :: "nat list"

text \<open>\<^verbatim>\<open>xs.pop()\<close>: IndexError on the empty list.\<close>

definition pop :: "expr list \<Rightarrow> error + (expr \<times> expr list)" where
  "pop st = (if st = [] then Inl IndexError else Inr (last st, butlast st))"

definition push :: "expr \<Rightarrow> state \<Rightarrow> state" where
  "push v s = s\<lparr>symbolic_stack := symbolic_stack s @ [v]\<rparr>"

section \<open>ArithmeticInstructions\<close>

datatype hm = IntBits nat | FloatBits nat nat

definition helper_map :: "string \<Rightarrow> hm option" where
  "helper_map t =
     (if t = ''i32'' then Some (IntBits 32)
      else if t = ''i64'' then Some (IntBits 64)
      else if t = ''f32'' then Some (FloatBits 8 24)
      else if t = ''f64'' then Some (FloatBits 11 53)
      else None)"

text \<open>\<^verbatim>\<open>helper_map[instr_type]\<close> where a bit width is expected.\<close>

definition int_bits :: "string \<Rightarrow> error + nat" where
  "int_bits t =
     (case helper_map t of
        None \<Rightarrow> Inl KeyError
      | Some (IntBits w) \<Rightarrow> Inr w
      | Some (FloatBits eb sb) \<Rightarrow> Inl Z3Exception)"

text \<open>\<^verbatim>\<open>helper_map[instr_type][0]\<close> and \<^verbatim>\<open>[1]\<close>; a width cannot be indexed.\<close>

definition float_bits :: "string \<Rightarrow> error + (nat \<times> nat)" where
  "float_bits t =
     (case helper_map t of
        None \<Rightarrow> Inl KeyError
      | Some (IntBits w) \<Rightarrow> Inl TypeError
      | Some (FloatBits eb sb) \<Rightarrow> Inr (eb, sb))"

text \<open>A boolean operand becomes a fresh bit-vector named after its printed form.\<close>

definition bool_to_bv :: "z3_api \<Rightarrow> string \<Rightarrow> expr \<Rightarrow> error + expr" where
  "bool_to_bv z t a =
     (if is_bool a then bnd (int_bits t) (\<lambda>w. Inr (BitVec (str_of z a) w)) else Inr a)"

definition assert_size :: "string \<Rightarrow> expr \<Rightarrow> error + unit" where
  "assert_size t a =
     bnd (size_of a) (\<lambda>n. bnd (int_bits t) (\<lambda>w. py_assert (n = w)))"

definition int_binop :: "string \<Rightarrow> expr \<Rightarrow> expr \<Rightarrow> error + expr" where
  "int_binop name arg1 arg2 =
     (if contains ''.sub'' name then bv_binop ''bvsub'' arg2 arg1
      else if contains ''.add'' name then bv_binop ''bvadd'' arg2 arg1
      else if contains ''.mul'' name then bv_binop ''bvmul'' arg2 arg1
      else if contains ''.div_s'' name then bv_binop ''bvsdiv'' arg2 arg1
      else if contains ''.div_u'' name then bv_binop ''bvudiv'' arg2 arg1
      else if contains ''.rem_s'' name then bv_binop ''bvsrem'' arg2 arg1
      else if contains ''.rem_u'' name then bv_binop ''bvurem'' arg2 arg1
      else Inl UnsupportInstructionError)"

definition do_emulate_arithmetic_int_instruction ::
  "z3_api \<Rightarrow> string \<Rightarrow> state \<Rightarrow> error + state list" where
  "do_emulate_arithmetic_int_instruction z name s =
     (let instr_type = take 3 name in
      if contains ''.clz'' name \<or> contains ''.ctz'' name then
        bnd (pop (symbolic_stack s)) (\<lambda>(a, st).
        bnd (int_bits instr_type) (\<lambda>w.
          Inr [s\<lparr>symbolic_stack := st @ [BitVecVal (int w) w]\<rparr>]))
      else if contains ''.popcnt'' name then
        bnd (pop (symbolic_stack s)) (\<lambda>(a, st).
        bnd (int_bits instr_type) (\<lambda>w.
          Inr [s\<lparr>symbolic_stack := st @ [BitVecVal 0 w]\<rparr>]))
      else
        bnd (pop (symbolic_stack s)) (\<lambda>(arg1, st1).
        bnd (pop st1) (\<lambda>(arg2, st2).
        bnd (bool_to_bv z instr_type arg1) (\<lambda>arg1.
        bnd (bool_to_bv z instr_type arg2) (\<lambda>arg2.
        bnd (assert_size instr_type arg1) (\<lambda>_.
        bnd (assert_size instr_type arg2) (\<lambda>_.
        bnd (int_binop name arg1 arg2) (\<lambda>result.
          Inr [s\<lparr>symbolic_stack := st2 @ [simplify z result]\<rparr>]))))))))"

definition assert_float :: "string \<Rightarrow> expr \<Rightarrow> error + unit" where
  "assert_float t a =
     bnd (ebits a) (\<lambda>eb. bnd (float_bits t) (\<lambda>(heb, hsb).
       if eb = heb then bnd (sbits a) (\<lambda>sb. py_assert (sb = hsb))
       else Inl AssertionError))"

definition RNE :: expr where "RNE = Const ''RNE'' RMSort"
definition RTN :: expr where "RTN = Const ''RTN'' RMSort"
definition RTP :: expr where "RTP = Const ''RTP'' RMSort"
definition RTZ :: expr where "RTZ = Const ''RTZ'' RMSort"

definition fp_app :: "string \<Rightarrow> expr \<Rightarrow> expr list \<Rightarrow> error + expr" where
  "fp_app f a args =
     (case sort_of a of Some (FPSort eb sb) \<Rightarrow> Inr (App f (FPSort eb sb) args)
      | _ \<Rightarrow> Inl Z3Exception)"

text \<open>
  The two-operand branch chain. A branch that assigns \<^verbatim>\<open>result\<close> yields \<open>Some\<close>; when
  no branch assigns it the variable stays unbound (\<open>None\<close>). The last test is the chained
  comparison \<^verbatim>\<open>'.copysign' in name == 'f32.copysign'\<close>, that is
  \<^verbatim>\<open>'.copysign' in name and name == 'f32.copysign'\<close>.
\<close>

definition float_binop :: "string \<Rightarrow> expr \<Rightarrow> expr \<Rightarrow> error + expr option" where
  "float_binop name arg1 arg2 =
     (if contains ''.add'' name then bnd (fp_app ''fp.add'' arg2 [RNE, arg2, arg1]) (\<lambda>r. Inr (Some r))
      else if contains ''.sub'' name then bnd (fp_app ''fp.sub'' arg2 [RNE, arg2, arg1]) (\<lambda>r. Inr (Some r))
      else if contains ''.mul'' name then bnd (fp_app ''fp.mul'' arg2 [RNE, arg2, arg1]) (\<lambda>r. Inr (Some r))
      else if contains ''.div'' name then bnd (fp_app ''fp.div'' arg2 [RNE, arg2, arg1]) (\<lambda>r. Inr (Some r))
      else if contains ''.min'' name then bnd (fp_app ''fp.min'' arg2 [arg2, arg1]) (\<lambda>r. Inr (Some r))
      else if contains ''.max'' name then bnd (fp_app ''fp.max'' arg2 [arg2, arg1]) (\<lambda>r. Inr (Some r))
      else if contains ''.copysign'' name \<and> name = ''f32.copysign'' then
        bnd (isPositive arg2) (\<lambda>p2. bnd (isPositive arg1) (\<lambda>p1.
          if p2 \<noteq> p1 then bnd (fp_app ''fp.neg'' arg1 [arg1]) (\<lambda>r. Inr (Some r))
          else Inr None))
      else Inr None)"

definition float_unop :: "string \<Rightarrow> expr \<Rightarrow> error + expr option" where
  "float_unop name arg1 =
     (if contains ''.sqrt'' name then bnd (fp_app ''fp.sqrt'' arg1 [RNE, arg1]) (\<lambda>r. Inr (Some r))
      else if contains ''.floor'' name then bnd (fp_app ''fp.roundToIntegral'' arg1 [RTN, arg1]) (\<lambda>r. Inr (Some r))
      else if contains ''.ceil'' name then bnd (fp_app ''fp.roundToIntegral'' arg1 [RTP, arg1]) (\<lambda>r. Inr (Some r))
      else if contains ''.trunc'' name then bnd (fp_app ''fp.roundToIntegral'' arg1 [RTZ, arg1]) (\<lambda>r. Inr (Some r))
      else if contains ''.nearest'' name then bnd (fp_app ''fp.roundToIntegral'' arg1 [RNE, arg1]) (\<lambda>r. Inr (Some r))
      else if contains ''.abs'' name then bnd (fp_app ''fp.abs'' arg1 [arg1]) (\<lambda>r. Inr (Some r))
      else if contains ''.neg'' name then bnd (fp_app ''fp.neg'' arg1 [arg1]) (\<lambda>r. Inr (Some r))
      else Inr None)"

text \<open>\<^verbatim>\<open>result = simplify(result)\<close> followed by the push: an unbound \<^verbatim>\<open>result\<close>
  raises UnboundLocalError.\<close>

definition push_result :: "z3_api \<Rightarrow> state \<Rightarrow> expr list \<Rightarrow> expr option \<Rightarrow> error + state list" where
  "push_result z s st r =
     (case r of None \<Rightarrow> Inl UnboundLocalError
      | Some result \<Rightarrow> Inr [s\<lparr>symbolic_stack := st @ [simplify z result]\<rparr>])"

definition do_emulate_arithmetic_float_instruction ::
  "z3_api \<Rightarrow> string \<Rightarrow> state \<Rightarrow> error + state list" where
  "do_emulate_arithmetic_float_instruction z name s =
     (let instr_type = take 3 name;
          two_arguments_instrs =
            map (\<lambda>i. instr_type @ ''.'' @ i)
              [''add'', ''sub'', ''mul'', ''div'', ''min'', ''max'', ''copysign''];
          one_argument_instrs =
            map (\<lambda>i. instr_type @ ''.'' @ i)
              [''sqrt'', ''floor'', ''ceil'', ''trunc'', ''nearest'', ''abs'', ''neg'']
      in
      if name \<in> set two_arguments_instrs then
        bnd (pop (symbolic_stack s)) (\<lambda>(arg1, st1).
        bnd (pop st1) (\<lambda>(arg2, st2).
        bnd (assert_float instr_type arg1) (\<lambda>_.
        bnd (assert_float instr_type arg2) (\<lambda>_.
        bnd (float_binop name arg1 arg2) (\<lambda>r.
          push_result z s st2 r)))))
      else if name \<in> set one_argument_instrs then
        bnd (pop (symbolic_stack s)) (\<lambda>(arg1, st1).
        bnd (assert_float instr_type arg1) (\<lambda>_.
        bnd (float_unop name arg1) (\<lambda>r.
          push_result z s st1 r)))
      else Inl UnsupportInstructionError)"

definition emulate_arithmetic :: "z3_api \<Rightarrow> string \<Rightarrow> state \<Rightarrow> error + state list" where
  "emulate_arithmetic z name s =
     (if take 1 name = ''i'' then do_emulate_arithmetic_int_instruction z name s
      else do_emulate_arithmetic_float_instruction z name s)"

section \<open>VariableInstructions\<close>

definition dict_get :: "'v dict \<Rightarrow> nat \<Rightarrow> error + 'v" where
  "dict_get d k = (case map_of d k of None \<Rightarrow> Inl KeyError | Some v \<Rightarrow> Inr v)"

text \<open>\<^verbatim>\<open>state.local_var.get(op, None) is not None\<close>.\<close>

definition get_is_not_None :: "expr dict \<Rightarrow> nat \<Rightarrow> bool" where
  "get_is_not_None d k = (case map_of d k of None \<Rightarrow> False | Some v \<Rightarrow> v \<noteq> PyNone)"

definition strip_marker :: "8 word list \<Rightarrow> 8 word list" where
  "strip_marker operand =
     (if startswith operand [0x80, 0x80, 0x80, 0x80] then drop 4 operand else operand)"

definition get_global :: "z3_api \<Rightarrow> state \<Rightarrow> nat \<Rightarrow> error + state list" where
  "get_global z s global_index =
     bnd (dict_get (globals s) global_index) (\<lambda>global_operand.
       case global_operand of
         GStr str \<Rightarrow>
           (case num_of_str z str of None \<Rightarrow> Inl Z3Exception
            | Some v \<Rightarrow> Inr [push (BitVecVal v 32) s])
       | GInt v \<Rightarrow> Inr [push (BitVecVal v 32) s]
       | GExpr e \<Rightarrow>
           if is_bv e \<or> is_bv_value e then Inr [push e s]
           else Inl UnsupportGlobalTypeError)"

definition emulate_variable ::
  "z3_api \<Rightarrow> string \<Rightarrow> 8 word list \<Rightarrow> state \<Rightarrow> error + state list" where
  "emulate_variable z name operand s =
     (let op = from_bytes_little (strip_marker operand) in
      if name = ''get_local'' then
        (if get_is_not_None (local_var s) op then
           bnd (dict_get (local_var s) op) (\<lambda>v. Inr [push v s])
         else
           bnd (dict_get (local_var s) op) (\<lambda>v. Inr [push v s]))
      else if name = ''set_local'' then
        bnd (pop (symbolic_stack s)) (\<lambda>(var, st).
          Inr [s\<lparr>symbolic_stack := st, local_var := dict_set (local_var s) op var\<rparr>])
      else if name = ''get_global'' then get_global z s op
      else if name = ''set_global'' then
        bnd (pop (symbolic_stack s)) (\<lambda>(global_operand, st).
          Inr [s\<lparr>symbolic_stack := st,
                 globals := dict_set (globals s) op (GExpr global_operand)\<rparr>])
      else if name = ''tee_local'' then
        (if symbolic_stack s = [] then Inl IndexError
         else Inr [s\<lparr>local_var := dict_set (local_var s) op (last (symbolic_stack s))\<rparr>])
      else Inl UnsupportInstructionError)"

section \<open>ParametricInstructions\<close>

text \<open>
  The symbolic case, shared in shape by \<^verbatim>\<open>select\<close> and \<^verbatim>\<open>br_if\<close>: the two flags
  say which side the solver refutes.
\<close>

definition no_need_true :: "z3_api \<Rightarrow> state \<Rightarrow> expr \<Rightarrow> bool" where
  "no_need_true z s op = (one_time_query_cache z (solver s) op = unsat)"

definition no_need_false :: "z3_api \<Rightarrow> state \<Rightarrow> expr \<Rightarrow> bool" where
  "no_need_false z s op = (one_time_query_cache z (solver s) (z3_Not op) = unsat)"

definition solver_add :: "expr \<Rightarrow> state \<Rightarrow> state" where
  "solver_add c s = s\<lparr>solver := solver s @ [c]\<rparr>"

text \<open>
  \<^verbatim>\<open>select\<close> after its three pops. \<open>opv\<close> is the variable \<^verbatim>\<open>op\<close>, bound only when the
  condition is a bit-vector. The result is \<open>None\<close> where the Python function runs off
  its end without a \<^verbatim>\<open>return\<close> (the \<^verbatim>\<open>pass\<close> branch) and so returns \<^verbatim>\<open>None\<close>.
\<close>

definition select_branches ::
  "z3_api \<Rightarrow> state \<Rightarrow> expr option \<Rightarrow> expr \<Rightarrow> expr \<Rightarrow> error + state list option" where
  "select_branches z s opv arg1 arg2 =
     (case opv of
        None \<Rightarrow> Inl UnboundLocalError
      | Some op \<Rightarrow>
          if is_true op then Inr (Some [push arg1 s])
          else if is_false op then Inr (Some [push arg2 s])
          else if \<not> is_true op \<and> \<not> is_false op then
            (if no_need_true z s op \<and> no_need_false z s op then Inr None
             else if \<not> no_need_true z s op \<and> \<not> no_need_false z s op then
               Inr (Some [push arg1 (solver_add op s), push arg2 (solver_add (z3_Not op) s)])
             else if no_need_true z s op then
               Inr (Some [push arg2 (solver_add (z3_Not op) s)])
             else Inr (Some [push arg1 (solver_add op s)]))
          else Inl (SystemExit ''select instruction error''))"

text \<open>\<^verbatim>\<open>if is_bv(arg0): op = simplify(arg0 == 0)\<close>; otherwise \<^verbatim>\<open>op\<close> stays unbound.\<close>

definition select_condition :: "z3_api \<Rightarrow> expr \<Rightarrow> error + expr option" where
  "select_condition z arg0 =
     (if is_bv arg0 then bnd (bv_cmp_int ''='' arg0 0) (\<lambda>c. Inr (Some (simplify z c)))
      else Inr None)"

definition emulate_parametric ::
  "z3_api \<Rightarrow> string \<Rightarrow> state \<Rightarrow> error + state list option" where
  "emulate_parametric z name s =
     (if name = ''drop'' then
        bnd (pop (symbolic_stack s)) (\<lambda>(a, st). Inr (Some [s\<lparr>symbolic_stack := st\<rparr>]))
      else if name = ''select'' then
        bnd (pop (symbolic_stack s)) (\<lambda>(arg0, st0).
        bnd (pop st0) (\<lambda>(arg1, st1).
        bnd (pop st1) (\<lambda>(arg2, st2).
        bnd (py_assert (is_bv arg0 \<or> is_bool arg0)) (\<lambda>_.
        bnd (select_condition z arg0) (\<lambda>opv.
          select_branches z (s\<lparr>symbolic_stack := st2\<rparr>) opv arg1 arg2)))))
      else Inl UnsupportInstructionError)"

section \<open>lib/utils: the modelled-function table\<close>

definition MODELED_FUNCS :: "string \<Rightarrow> string list option" where
  "MODELED_FUNCS lang =
     (if lang = ''c'' then
        Some [''__small_printf'', ''abs'', ''atof'', ''atoi'', ''exp'', ''getchar'',
              ''iprintf'', ''printf'', ''putchar'', ''puts'', ''scanf'', ''swap'',
              ''system'', ''emscripten_resize_heap'', ''fopen'', ''vfprintf'',
              ''open'', ''exit'', ''setlocale'', ''hard_locale'', ''strstr'']
      else if lang = ''go'' then
        Some [''fmt.Scanf'', ''fmt.Printf'', ''runtime.divideByZeroPanic'',
              ''runtime.lookupPanic'', ''runtime.nilPanicruntime.slicePanic'',
              ''runtime.sliceToArrayPointerPanic'', ''runtime.unsafeSlicePanic'',
              ''runtime.chanMakePanic'', ''runtime.negativeShiftPanic'',
              ''runtime.blockingPanic'', ''runtime.calculateHeapAddresses'', ''memset'',
              ''runtime.alloc'', ''memcpy'', ''syscall/js.valueGet'', ''runtime.putchar'']
      else if lang = ''rust'' then Some []
      else if lang = ''wasi'' then
        Some [''args_sizes_get'', ''args_get'', ''environ_sizes_get'',
              ''fd_advise'', ''fd_fdstat_get'', ''fd_tell'', ''fd_seek'',
              ''fd_close'', ''fd_read'', ''fd_write'', ''proc_exit'',
              ''fd_prestat_get'', ''fd_prestat_dir_name'', ''path_open'']
      else None)"

definition in_modeled :: "string \<Rightarrow> string \<Rightarrow> error + bool" where
  "in_modeled func_name lang =
     (case MODELED_FUNCS lang of None \<Rightarrow> Inl KeyError | Some fs \<Rightarrow> Inr (func_name \<in> set fs))"

text \<open>\<open>src\<close> is \<^verbatim>\<open>Configuration.get_source_type()\<close>; an empty or missing
  \<^verbatim>\<open>specify_lang\<close> is false in the condition.\<close>

definition is_modeled :: "string \<Rightarrow> string \<Rightarrow> string option \<Rightarrow> error + bool" where
  "is_modeled src func_name specify_lang =
     (case specify_lang of
        Some (c # cs) \<Rightarrow> in_modeled func_name (c # cs)
      | _ \<Rightarrow>
          bnd (in_modeled func_name ''wasi'') (\<lambda>w.
            if w then Inr True else in_modeled func_name src))"

section \<open>ControlInstructions\<close>

text \<open>
  What the control instructions read from outside the sources: the analyzer's function
  prototypes (name, parameter string, return string, and a fourth component that is not
  used) and the offset of its first element segment (\<open>None\<close> when there is none), the
  configuration (element table, DSL flag, source language), the renaming
  \<^verbatim>\<open>readable_internal_func_name\<close>, Python's \<^verbatim>\<open>int(s)\<close> and \<^verbatim>\<open>int(s, 16)\<close>, and the
  emulators of the modelled C, Go and WASI functions (callee, state, parameter string,
  return string).
\<close>

record env =
  func_prototypes :: "(string \<times> string \<times> string \<times> string) list"
  elements_offset :: "int option"
  elem_index_to_func :: "int \<Rightarrow> string option"
  readable_internal_func_name :: "string \<Rightarrow> string"
  dsl_flag :: bool
  source_type :: string
  py_int :: "string \<Rightarrow> int option"
  py_int16 :: "string \<Rightarrow> int option"
  c_emul :: "string \<Rightarrow> state \<Rightarrow> string \<Rightarrow> string \<Rightarrow> error + state list"
  go_emul :: "string \<Rightarrow> state \<Rightarrow> string \<Rightarrow> string \<Rightarrow> error + state list"
  wasi_emul :: "string \<Rightarrow> state \<Rightarrow> string \<Rightarrow> string \<Rightarrow> error + state list"

definition TERMINATED_FUNCS :: "string list" where
  "TERMINATED_FUNCS = [''__assert_fail'', ''runtime.divideByZeroPanic'']"

definition skip_command :: "string list" where
  "skip_command = [''loop'', ''end'', ''br'', ''else'', ''block'']"

definition term_command :: "string list" where
  "term_command = [''unreachable'', ''return'']"

text \<open>\<^verbatim>\<open>xs[i]\<close> for a Python integer: a negative index counts from the end.\<close>

definition py_index :: "'a list \<Rightarrow> int \<Rightarrow> error + 'a" where
  "py_index xs i =
     (if 0 \<le> i \<and> i < int (length xs) then Inr (xs ! nat i)
      else if i < 0 \<and> - i \<le> int (length xs) then Inr (xs ! nat (int (length xs) + i))
      else Inl IndexError)"

text \<open>\<^verbatim>\<open>len(param_str.split(' '))\<close>, or 0 for the empty parameter string.\<close>

definition num_args :: "string \<Rightarrow> nat" where
  "num_args param_str = (if param_str = [] then 0 else length (split_on CHR '' '' param_str))"

text \<open>\<^verbatim>\<open>[stack.pop() for _ in range(n)]\<close>: the popped values in pop order, and the
  remaining stack.\<close>

fun pop_n :: "nat \<Rightarrow> expr list \<Rightarrow> error + (expr list \<times> expr list)" where
  "pop_n 0 st = Inr ([], st)"
| "pop_n (Suc n) st =
     bnd (pop st) (\<lambda>(a, st').
     bnd (pop_n n st') (\<lambda>(args, st''). Inr (a # args, st'')))"

text \<open>\<^verbatim>\<open>for x in range(num_arg): local_var[num_arg - 1 - x] = arg[x]\<close>.\<close>

definition assign_args :: "nat \<Rightarrow> expr list \<Rightarrow> expr dict \<Rightarrow> expr dict" where
  "assign_args n arg d = fold (\<lambda>x d. dict_set d (n - 1 - x) (arg ! x)) [0..<n] d"

text \<open>\<^verbatim>\<open>for x in range(num_arg, len(local_var)): local_var.pop(x)\<close>, a missing key
  skipped; the bound is the length when the loop starts.\<close>

definition clear_locals :: "nat \<Rightarrow> expr dict \<Rightarrow> expr dict" where
  "clear_locals n d = fold (\<lambda>x d. dict_del d x) [n..<length d] d"

definition store_context :: "string \<Rightarrow> string \<Rightarrow> state \<Rightarrow> string \<Rightarrow> error + state" where
  "store_context param_str return_str s callee_func_name =
     (let num_arg = num_args param_str in
      bnd (pop_n num_arg (symbolic_stack s)) (\<lambda>(arg, st).
        Inr (s\<lparr>symbolic_stack := st,
               context_stack := context_stack s @
                 [(current_func_name s, instr_cur_bb s, st, local_var s, return_str \<noteq> [])],
               local_var := clear_locals num_arg (assign_args num_arg arg (local_var s)),
               current_func_name := callee_func_name\<rparr>)))"

definition restore_context :: "state \<Rightarrow> error + state" where
  "restore_context s =
     (if context_stack s = [] then Inl (ProcSuccessTermination 0)
      else
        (case last (context_stack s) of
           (caller_func_name, cur_bb, stack, local, require_return) \<Rightarrow>
             let s1 = s\<lparr>context_stack := butlast (context_stack s)\<rparr> in
             if require_return then
               bnd (pop (symbolic_stack s1)) (\<lambda>(return_val, st).
                 Inr (s1\<lparr>current_func_name := caller_func_name,
                         current_bb_name := cur_bb,
                         symbolic_stack := stack @ [return_val],
                         local_var := local\<rparr>))
             else
               Inr (s1\<lparr>current_func_name := caller_func_name,
                       current_bb_name := cur_bb,
                       symbolic_stack := stack,
                       local_var := local\<rparr>)))"

text \<open>\<^verbatim>\<open>a and b\<close> where \<open>b\<close> may raise: \<open>b\<close> is evaluated only when \<open>a\<close> holds.\<close>

definition and_then :: "bool \<Rightarrow> error + bool \<Rightarrow> error + bool" where
  "and_then a b = (if a then b else Inr False)"

definition deal_with_call :: "env \<Rightarrow> state \<Rightarrow> int \<Rightarrow> error + state list" where
  "deal_with_call e s f_offset =
     bnd (py_index (func_prototypes e) f_offset) (\<lambda>(callee_func_name, param_str, return_str, u).
       let readable_callee_func_name = readable_internal_func_name e callee_func_name in
       if dsl_flag e \<and> startswith readable_callee_func_name ''checker'' then
         bnd (py_index (split_on CHR ''$'' readable_callee_func_name) 1) (\<lambda>t.
           case py_int e t of None \<Rightarrow> Inl ValueError | Some idx \<Rightarrow> Inr [s])
       else
       bnd (and_then (source_type e = ''c'')
              (is_modeled (source_type e) readable_callee_func_name (Some ''c''))) (\<lambda>is_c.
       if is_c then c_emul e readable_callee_func_name s param_str return_str
       else
       bnd (and_then (source_type e = ''go'')
              (is_modeled (source_type e) readable_callee_func_name (Some ''go''))) (\<lambda>is_go.
       if is_go then go_emul e readable_callee_func_name s param_str return_str
       else
       bnd (and_then (source_type e = ''rust'')
              (is_modeled (source_type e) readable_callee_func_name (Some ''rust''))) (\<lambda>is_rust.
       if is_rust then Inl UnboundLocalError
       else
       bnd (is_modeled (source_type e) readable_callee_func_name (Some ''wasi'')) (\<lambda>is_wasi.
       if is_wasi then wasi_emul e readable_callee_func_name s param_str return_str
       else if readable_callee_func_name \<in> set TERMINATED_FUNCS then Inl ProcFailTermination
       else
         bnd (store_context param_str return_str s readable_callee_func_name) (\<lambda>s'.
           Inr [s']))))))"

text \<open>The branch of \<^verbatim>\<open>br_if\<close> and \<^verbatim>\<open>if\<close> after the pop; \<open>op\<close> is the condition after
  \<^verbatim>\<open>simplify(op != 0)\<close> when the popped value was a bit-vector.\<close>

definition set_edge :: "string \<Rightarrow> state \<Rightarrow> state" where
  "set_edge t s = s\<lparr>edge_type := t\<rparr>"

definition br_if_branches :: "z3_api \<Rightarrow> state \<Rightarrow> expr \<Rightarrow> error + state list" where
  "br_if_branches z s op =
     (if is_true op then Inr [set_edge ''conditional_true_0'' s]
      else if is_false op then Inr [set_edge ''conditional_false_0'' s]
      else if \<not> is_true op \<and> \<not> is_false op then
        (if no_need_true z s op \<and> no_need_false z s op then Inr []
         else if \<not> no_need_true z s op \<and> \<not> no_need_false z s op then
           Inr [solver_add op (set_edge ''conditional_true_0'' s),
                solver_add (z3_Not op) (set_edge ''conditional_false_0'' s)]
         else if no_need_true z s op then
           Inr [solver_add (z3_Not op) (set_edge ''conditional_false_0'' s)]
         else Inr [solver_add op (set_edge ''conditional_true_0'' s)])
      else Inl (SystemExit ''br_if/if instruction error''))"

text \<open>\<^verbatim>\<open>if is_bv(op): op = simplify(op != 0)\<close>.\<close>

definition br_condition :: "z3_api \<Rightarrow> expr \<Rightarrow> error + expr" where
  "br_condition z op =
     (if is_bv op then bnd (bv_cmp_int ''distinct'' op 0) (\<lambda>c. Inr (simplify z c))
      else Inr op)"

definition emulate_br_if :: "z3_api \<Rightarrow> state \<Rightarrow> error + state list" where
  "emulate_br_if z s =
     bnd (pop (symbolic_stack s)) (\<lambda>(op, st).
     bnd (py_assert (is_bv op \<or> is_bool op)) (\<lambda>_.
     bnd (br_condition z op) (\<lambda>op.
       br_if_branches z (s\<lparr>symbolic_stack := st\<rparr>) op)))"

text \<open>The decimal form of an integer, as an f-string prints it.\<close>

function str_nat :: "nat \<Rightarrow> string" where
  "str_nat n =
     (if n < 10 then [''0123456789'' ! n]
      else str_nat (n div 10) @ [''0123456789'' ! (n mod 10)])"
  by pat_completeness auto
termination
  by (relation "measure id") auto

declare str_nat.simps [simp del]

definition str_int :: "int \<Rightarrow> string" where
  "str_int i = (if i < 0 then ''-'' @ str_nat (nat (- i)) else str_nat (nat i))"

text \<open>
  \<^verbatim>\<open>target_branch2index\<close>: the indices of the branch list grouped by target, the targets
  in the order of their first occurrence (a \<^verbatim>\<open>defaultdict(list)\<close>).
\<close>

fun add_index :: "(int \<times> nat list) list \<Rightarrow> int \<Rightarrow> nat \<Rightarrow> (int \<times> nat list) list" where
  "add_index [] target i = [(target, [i])]"
| "add_index ((t, is) # g) target i =
     (if t = target then (t, is @ [i]) # g else (t, is) # add_index g target i)"

definition target_branch2index :: "int list \<Rightarrow> (int \<times> nat list) list" where
  "target_branch2index br_lis =
     fold (\<lambda>(index, target) g. add_index g target index) (zip [0..<length br_lis] br_lis) []"

text \<open>
  \<^verbatim>\<open>op == i\<close>, \<^verbatim>\<open>op >= i\<close> and \<^verbatim>\<open>op < i\<close> for a popped value \<open>op\<close> and a Python
  integer, where nothing has checked what \<open>op\<close> is. On a bit-vector the integer becomes
  a numeral of the same width and the order is the signed one. On a float the integer
  becomes a float numeral of the same sort (\<^verbatim>\<open>FPVal(i, sort)\<close>, which builds the numeral
  from the decimal text of \<open>i\<close>) and the order is the floating-point one. A boolean or
  a rounding mode has no order (TypeError) and cannot be compared with an integer
  (Z3Exception). \<^verbatim>\<open>None >= i\<close> and \<^verbatim>\<open>None < i\<close> raise TypeError; \<^verbatim>\<open>None == i\<close> is
  Python's \<^verbatim>\<open>False\<close>, which the \<^verbatim>\<open>simplify\<close> call that takes every such comparison
  refuses with a Z3Exception.
\<close>

datatype py_cmp = PyEq | PyGe | PyLt

fun bv_name :: "py_cmp \<Rightarrow> string" where
  "bv_name PyEq = ''=''"
| "bv_name PyGe = ''bvsge''"
| "bv_name PyLt = ''bvslt''"

fun fp_name :: "py_cmp \<Rightarrow> string" where
  "fp_name PyEq = ''=''"
| "fp_name PyGe = ''fp.geq''"
| "fp_name PyLt = ''fp.lt''"

definition cmp_int :: "z3_api \<Rightarrow> py_cmp \<Rightarrow> expr \<Rightarrow> int \<Rightarrow> error + expr" where
  "cmp_int z c e i =
     (case sort_of e of
        Some (BitVecSort w) \<Rightarrow> Inr (App (bv_name c) BoolSort [e, BitVecVal i w])
      | Some (FPSort eb sb) \<Rightarrow>
          bnd (fp_of_str z (str_int i) eb sb) (\<lambda>v. Inr (App (fp_name c) BoolSort [e, v]))
      | _ \<Rightarrow> if c = PyEq then Inl Z3Exception else Inl TypeError)"

text \<open>\<^verbatim>\<open>[simplify(op == i) for i in index_list]\<close>.\<close>

fun index_conds :: "z3_api \<Rightarrow> expr \<Rightarrow> nat list \<Rightarrow> error + expr list" where
  "index_conds z op [] = Inr []"
| "index_conds z op (i # is) =
     bnd (cmp_int z PyEq op (int i)) (\<lambda>c.
     bnd (index_conds z op is) (\<lambda>cs. Inr (simplify z c # cs)))"

text \<open>The loop over the groups: every group whose condition is not the literal false
  adds one deep copy of the state.\<close>

fun br_table_groups ::
  "z3_api \<Rightarrow> state \<Rightarrow> expr \<Rightarrow> (int \<times> nat list) list \<Rightarrow> error + state list" where
  "br_table_groups z s op [] = Inr []"
| "br_table_groups z s op ((target, index_list) # g) =
     bnd (index_conds z op index_list) (\<lambda>cs.
       let cond = simplify z (z3_Or cs) in
       bnd (br_table_groups z s op g) (\<lambda>states.
         if is_false cond then Inr states
         else if is_true cond then
           Inr (set_edge (''conditional_true_'' @ str_int target) s # states)
         else
           Inr (set_edge (''conditional_true_'' @ str_int target) (solver_add cond s) # states)))"

definition br_table_default :: "z3_api \<Rightarrow> state \<Rightarrow> expr \<Rightarrow> int \<Rightarrow> error + state list" where
  "br_table_default z s op n_br =
     bnd (cmp_int z PyGe op n_br) (\<lambda>ge.
     bnd (cmp_int z PyLt op 0) (\<lambda>lt.
       let cond = simplify z (z3_Or [ge, lt]) in
       if is_false cond then Inr []
       else if is_true cond then Inr [set_edge ''conditional_false_0'' s]
       else Inr [set_edge ''conditional_false_0'' (solver_add cond s)]))"

definition emulate_br_table :: "z3_api \<Rightarrow> int list \<Rightarrow> state \<Rightarrow> error + state list" where
  "emulate_br_table z instr_operand s =
     bnd (pop (symbolic_stack s)) (\<lambda>(op, st).
     bnd (py_index instr_operand 0) (\<lambda>n_br.
       let br_lis = butlast (tl instr_operand);
           s' = s\<lparr>symbolic_stack := st\<rparr>
       in
       bnd (br_table_groups z s' op (target_branch2index br_lis)) (\<lambda>states.
       bnd (br_table_default z s' op n_br) (\<lambda>dflt.
       bnd (py_assert (states @ dflt \<noteq> [])) (\<lambda>_.
         Inr (states @ dflt))))))"

text \<open>The first function prototype whose readable name is the callee's.\<close>

fun find_callee :: "env \<Rightarrow> string \<Rightarrow> (string \<times> string \<times> string \<times> string) list \<Rightarrow> nat \<Rightarrow> nat option" where
  "find_callee e callee [] func_offset = None"
| "find_callee e callee (item # items) func_offset =
     (if callee = readable_internal_func_name e (fst item) then Some func_offset
      else find_callee e callee items (Suc func_offset))"

definition emulate_call_indirect :: "env \<Rightarrow> state \<Rightarrow> error + state list" where
  "emulate_call_indirect e s =
     bnd (pop (symbolic_stack s)) (\<lambda>(op, st).
     bnd (py_assert (is_bv_value op)) (\<lambda>_.
     bnd (as_long op) (\<lambda>op.
     bnd (case elements_offset e of None \<Rightarrow> Inl IndexError | Some off \<Rightarrow> Inr off) (\<lambda>offset.
     bnd (case elem_index_to_func e (op - offset) of None \<Rightarrow> Inl KeyError
          | Some n \<Rightarrow> Inr n) (\<lambda>callee_func_name.
       case find_callee e callee_func_name (func_prototypes e) 0 of
         None \<Rightarrow> Inl (SystemExit ''no valid callee in call_indirect'')
       | Some callee_func_offset \<Rightarrow>
           deal_with_call e
             (s\<lparr>symbolic_stack := st, call_indirect_callee := callee_func_name\<rparr>)
             (int callee_func_offset))))))"

text \<open>The operand of \<^verbatim>\<open>call\<close>: the second word of the instruction text, read as a
  decimal and, failing that, as a hexadecimal integer.\<close>

definition call_offset :: "env \<Rightarrow> string \<Rightarrow> error + int" where
  "call_offset e instr_string =
     bnd (py_index (split_on CHR '' '' instr_string) 1) (\<lambda>instr_operand.
       case py_int e instr_operand of
         Some f \<Rightarrow> Inr f
       | None \<Rightarrow> (case py_int16 e instr_operand of
                    Some f \<Rightarrow> Inr f | None \<Rightarrow> Inl ValueError))"

definition emulate_call :: "env \<Rightarrow> string \<Rightarrow> state \<Rightarrow> error + state list" where
  "emulate_call e instr_string s =
     bnd (call_offset e instr_string) (\<lambda>f_offset. deal_with_call e s f_offset)"

definition emulate_control ::
  "z3_api \<Rightarrow> env \<Rightarrow> string \<Rightarrow> int list \<Rightarrow> string \<Rightarrow> state \<Rightarrow> error + state list" where
  "emulate_control z e instr_name instr_operand instr_string s =
     (if instr_name \<in> set skip_command then Inr [s]
      else if instr_name \<in> set term_command then Inr [s]
      else if instr_name = ''nop'' then
        (if instr_xref s \<noteq> [] then bnd (restore_context s) (\<lambda>s'. Inr [s'])
         else Inr [s])
      else if instr_name = ''br_if'' \<or> instr_name = ''if'' then emulate_br_if z s
      else if instr_name = ''call_indirect'' then emulate_call_indirect e s
      else if instr_name = ''br_table'' then emulate_br_table z instr_operand s
      else if instr_name = ''call'' then emulate_call e instr_string s
      else Inl UnsupportInstructionError)"

section \<open>BitwiseInstructions\<close>

text \<open>The module's own \<^verbatim>\<open>helper_map\<close>: only the two integer types.\<close>

definition bitwise_bits :: "string \<Rightarrow> error + nat" where
  "bitwise_bits t =
     (if t = ''i32'' then Inr 32 else if t = ''i64'' then Inr 64 else Inl KeyError)"

definition bitwise_bool_to_bv :: "z3_api \<Rightarrow> string \<Rightarrow> expr \<Rightarrow> error + expr" where
  "bitwise_bool_to_bv z t a =
     (if is_bool a then bnd (bitwise_bits t) (\<lambda>w. Inr (BitVec (str_of z a) w)) else Inr a)"

definition bitwise_assert_size :: "string \<Rightarrow> expr \<Rightarrow> error + unit" where
  "bitwise_assert_size t a =
     bnd (size_of a) (\<lambda>n. bnd (bitwise_bits t) (\<lambda>w. py_assert (n = w)))"

definition bitwise_op :: "string \<Rightarrow> expr \<Rightarrow> expr \<Rightarrow> error + expr" where
  "bitwise_op name arg1 arg2 =
     (if contains ''.and'' name then bv_binop ''bvand'' arg1 arg2
      else if contains ''.or'' name then bv_binop ''bvor'' arg1 arg2
      else if contains ''.xor'' name then bv_binop ''bvxor'' arg1 arg2
      else if contains ''.shr_s'' name then bv_binop ''bvashr'' arg2 arg1
      else if contains ''.shr_u'' name then bv_binop ''bvlshr'' arg2 arg1
      else if contains ''.shl'' name then bv_binop ''bvshl'' arg2 arg1
      else if contains ''.rotl'' name then bv_binop ''ext_rotate_left'' arg2 arg1
      else if contains ''.rotr'' name then bv_binop ''ext_rotate_right'' arg2 arg1
      else Inl UnsupportInstructionError)"

text \<open>A boolean result is materialised as a 32-bit 1 or 0 when it is a literal.\<close>

definition bool_result :: "expr \<Rightarrow> expr" where
  "bool_result r =
     (if is_bool r then
        (if is_true r then BitVecVal 1 32 else if is_false r then BitVecVal 0 32 else r)
      else r)"

definition emulate_bitwise :: "z3_api \<Rightarrow> string \<Rightarrow> state \<Rightarrow> error + state list" where
  "emulate_bitwise z name s =
     bnd (pop (symbolic_stack s)) (\<lambda>(arg1, st1).
     bnd (pop st1) (\<lambda>(arg2, st2).
     let instr_type = take 3 name in
     bnd (bitwise_bool_to_bv z instr_type arg1) (\<lambda>arg1.
     bnd (bitwise_bool_to_bv z instr_type arg2) (\<lambda>arg2.
     bnd (bitwise_assert_size instr_type arg1) (\<lambda>_.
     bnd (bitwise_assert_size instr_type arg2) (\<lambda>_.
     bnd (bitwise_op name arg1 arg2) (\<lambda>r.
     let result = bool_result (simplify z r) in
     bnd (py_assert (is_bv result \<or> is_bool result)) (\<lambda>_.
       Inr [s\<lparr>symbolic_stack := st2 @ [result]\<rparr>]))))))))"

section \<open>ConstantInstructions\<close>

text \<open>\<^verbatim>\<open>re.search(';=([0-9.-]+);', s)\<close>: the first place where \<^verbatim>\<open>;=\<close> is followed by a
  non-empty run of digits, dots and minus signs and then a semicolon; the run is the
  group.\<close>

definition num_char :: "char \<Rightarrow> bool" where
  "num_char c = (c \<in> set ''0123456789.-'')"

fun re_search :: "string \<Rightarrow> string option" where
  "re_search [] = None"
| "re_search (c # cs) =
     (let run = takeWhile num_char (drop 2 (c # cs));
          rest = dropWhile num_char (drop 2 (c # cs))
      in if startswith (c # cs) '';='' \<and> run \<noteq> [] \<and> startswith rest '';'' then Some run
         else re_search cs)"

text \<open>\<^verbatim>\<open>const_type_prefix, _ = mnemonic.split('.')\<close>: exactly two parts, or ValueError.\<close>

definition type_prefix :: "string \<Rightarrow> error + string" where
  "type_prefix mnemonic =
     (case split_on CHR ''.'' mnemonic of [p, r] \<Rightarrow> Inr p | _ \<Rightarrow> Inl ValueError)"

definition BitVecVal_str :: "z3_api \<Rightarrow> string \<Rightarrow> nat \<Rightarrow> error + expr" where
  "BitVecVal_str z str w =
     (case num_of_str z str of None \<Rightarrow> Inl Z3Exception | Some v \<Rightarrow> Inr (BitVecVal v w))"

text \<open>The hexadecimal form: the digits after \<^verbatim>\<open>0x\<close>, padded on the left with zeros to
  8 digits (f32) or 16 digits (f64), then unpacked as a big-endian float.\<close>

definition pad_hex :: "nat \<Rightarrow> string \<Rightarrow> string" where
  "pad_hex n digits = replicate (n - length digits) CHR ''0'' @ digits"

definition emulate_constant :: "z3_api \<Rightarrow> string \<Rightarrow> state \<Rightarrow> error + state list" where
  "emulate_constant z instr_str s =
     (let mnemonic = hd (split_on CHR '' '' instr_str);
          const_num = last (split_on CHR '' '' instr_str)
      in
      bnd (type_prefix mnemonic) (\<lambda>const_type_prefix.
        if const_type_prefix = ''i32'' then
          bnd (BitVecVal_str z const_num 32) (\<lambda>v. Inr [push v s])
        else if const_type_prefix = ''i64'' then
          bnd (BitVecVal_str z const_num 64) (\<lambda>v. Inr [push v s])
        else if const_type_prefix = ''f32'' \<or> const_type_prefix = ''f64'' then
          (case re_search const_num of
             Some float_num \<Rightarrow>
               if const_type_prefix = ''f32''
               then bnd (fp_of_str z float_num 8 24) (\<lambda>v. Inr [push v s])
               else bnd (fp_of_str z float_num 11 53) (\<lambda>v. Inr [push v s])
           | None \<Rightarrow>
               if take 2 const_num = ''0x'' then
                 (if const_type_prefix = ''f32''
                  then bnd (fp_of_hex z (pad_hex 8 (drop 2 const_num)) 8 24) (\<lambda>v. Inr [push v s])
                  else bnd (fp_of_hex z (pad_hex 16 (drop 2 const_num)) 11 53) (\<lambda>v. Inr [push v s]))
               else Inl UnsupportInstructionError)
        else Inl UnsupportInstructionError))"

section \<open>ConversionInstructions\<close>

definition assert_bv :: "nat \<Rightarrow> expr \<Rightarrow> error + unit" where
  "assert_bv n a = bnd (size_of a) (\<lambda>w. py_assert (w = n))"

definition assert_fp :: "nat \<Rightarrow> nat \<Rightarrow> expr \<Rightarrow> error + unit" where
  "assert_fp eb sb a =
     bnd (ebits a) (\<lambda>x. bnd (py_assert (x = eb)) (\<lambda>_.
     bnd (sbits a) (\<lambda>y. py_assert (y = sb))))"

text \<open>One branch of the conversion: the assertion on the operand, the simplified result,
  the assertion on the result, the push.\<close>

definition convert ::
  "z3_api \<Rightarrow> state \<Rightarrow> expr list \<Rightarrow> error + unit \<Rightarrow> expr \<Rightarrow> (expr \<Rightarrow> error + unit)
     \<Rightarrow> error + state list" where
  "convert z s st pre e post =
     bnd pre (\<lambda>_.
       let result = simplify z e in
       bnd (post result) (\<lambda>_. Inr [s\<lparr>symbolic_stack := st @ [result]\<rparr>]))"

definition no_assert :: "expr \<Rightarrow> error + unit" where
  "no_assert r = Inr ()"

definition emulate_conversion :: "z3_api \<Rightarrow> string \<Rightarrow> state \<Rightarrow> error + state list" where
  "emulate_conversion z name s =
     bnd (pop (symbolic_stack s)) (\<lambda>(arg0, st).
       if name = ''i32.wrap/i64'' then
         convert z s st (assert_bv 64 arg0)
           (App ''extract_31_0'' (BitVecSort 32)
              [App ''bvsmod'' (BitVecSort 64) [arg0, BitVecVal (2 ^ 32) 64]]) no_assert
       else if name = ''i64.extend_s/i32'' then
         convert z s st (assert_bv 32 arg0)
           (App ''sign_extend_32'' (BitVecSort 64) [arg0]) no_assert
       else if name = ''i64.extend_u/i32'' then
         convert z s st (assert_bv 32 arg0)
           (App ''zero_extend_32'' (BitVecSort 64) [arg0]) no_assert
       else if name = ''i32.trunc_s/f32'' then
         convert z s st (assert_fp 8 24 arg0)
           (App ''fp.to_sbv'' (BitVecSort 32) [RTZ, arg0]) (assert_bv 32)
       else if name = ''i32.trunc_s/f64'' then
         convert z s st (assert_fp 11 53 arg0)
           (App ''fp.to_sbv'' (BitVecSort 32) [RTZ, arg0]) (assert_bv 32)
       else if name = ''i64.trunc_s/f32'' then
         convert z s st (assert_fp 8 24 arg0)
           (App ''fp.to_sbv'' (BitVecSort 64) [RTZ, arg0]) (assert_bv 64)
       else if name = ''i64.trunc_s/f64'' then
         convert z s st (assert_fp 11 53 arg0)
           (App ''fp.to_sbv'' (BitVecSort 64) [RTZ, arg0]) (assert_bv 64)
       else if name = ''i32.trunc_u/f32'' then
         convert z s st (assert_fp 8 24 arg0)
           (App ''fp.to_ubv'' (BitVecSort 32) [RTZ, arg0]) (assert_bv 32)
       else if name = ''i32.trunc_u/f64'' then
         convert z s st (assert_fp 11 53 arg0)
           (App ''fp.to_ubv'' (BitVecSort 32) [RTZ, arg0]) (assert_bv 32)
       else if name = ''i64.trunc_u/f32'' then
         convert z s st (assert_fp 8 24 arg0)
           (App ''fp.to_ubv'' (BitVecSort 64) [RTZ, arg0]) (assert_bv 64)
       else if name = ''i64.trunc_u/f64'' then
         convert z s st (assert_fp 11 53 arg0)
           (App ''fp.to_ubv'' (BitVecSort 64) [RTZ, arg0]) (assert_bv 64)
       else if name = ''f32.demote/f64'' then
         convert z s st (assert_fp 11 53 arg0)
           (App ''to_fp'' (FPSort 8 24) [RNE, arg0]) (assert_fp 8 24)
       else if name = ''f64.promote/f32'' then
         convert z s st (assert_fp 8 24 arg0)
           (App ''to_fp'' (FPSort 11 53) [RNE, arg0]) (assert_fp 11 53)
       else if name = ''f32.convert_s/i32'' then
         convert z s st (assert_bv 32 arg0)
           (App ''to_fp_signed'' (FPSort 8 24) [RNE, arg0]) (assert_fp 8 24)
       else if name = ''f32.convert_s/i64'' then
         convert z s st (assert_bv 64 arg0)
           (App ''to_fp_signed'' (FPSort 8 24) [RNE, arg0]) (assert_fp 8 24)
       else if name = ''f64.convert_s/i32'' then
         convert z s st (assert_bv 32 arg0)
           (App ''to_fp_signed'' (FPSort 11 53) [RNE, arg0]) (assert_fp 11 53)
       else if name = ''f64.convert_s/i64'' then
         convert z s st (assert_bv 64 arg0)
           (App ''to_fp_signed'' (FPSort 11 53) [RNE, arg0]) (assert_fp 11 53)
       else if name = ''f32.convert_u/i32'' then
         convert z s st (assert_bv 32 arg0)
           (App ''to_fp_unsigned'' (FPSort 8 24) [RNE, arg0]) (assert_fp 8 24)
       else if name = ''f32.convert_u/i64'' then
         convert z s st (assert_bv 64 arg0)
           (App ''to_fp_unsigned'' (FPSort 8 24) [RNE, arg0]) (assert_fp 8 24)
       else if name = ''f64.convert_u/i32'' then
         convert z s st (assert_bv 32 arg0)
           (App ''to_fp_unsigned'' (FPSort 11 53) [RNE, arg0]) (assert_fp 11 53)
       else if name = ''f64.convert_u/i64'' then
         convert z s st (assert_bv 64 arg0)
           (App ''to_fp_unsigned'' (FPSort 11 53) [RNE, arg0]) (assert_fp 11 53)
       else if name = ''i32.reinterpret/f32'' then
         convert z s st (assert_fp 8 24 arg0)
           (App ''fp.to_ieee_bv'' (BitVecSort 32) [arg0]) (assert_bv 32)
       else if name = ''i64.reinterpret/f64'' then
         convert z s st (assert_fp 11 53 arg0)
           (App ''fp.to_ieee_bv'' (BitVecSort 64) [arg0]) (assert_bv 64)
       else if name = ''f32.reinterpret/i32'' then
         convert z s st (assert_bv 32 arg0)
           (App ''to_fp_bv'' (FPSort 8 24) [arg0]) (assert_fp 8 24)
       else if name = ''f64.reinterpret/i64'' then
         convert z s st (assert_bv 64 arg0)
           (App ''to_fp_bv'' (FPSort 11 53) [arg0]) (assert_fp 11 53)
       else if name = ''i32.extend_s/i8'' then
         convert z s st (assert_bv 8 arg0)
           (App ''sign_extend_24'' (BitVecSort 32) [arg0]) no_assert
       else Inl UnsupportInstructionError)"

section \<open>Internal calls\<close>

text \<open>
  A callee is internal when the dispatch of \<open>deal_with_call\<close> reaches its last branch:
  it is no checker hook, no modelled function of the source language, no modelled WASI
  import and no terminating function.
\<close>

definition is_internal :: "env \<Rightarrow> string \<Rightarrow> bool" where
  "is_internal e name =
     (\<not> (dsl_flag e \<and> startswith name ''checker'')
      \<and> and_then (source_type e = ''c'') (is_modeled (source_type e) name (Some ''c'')) = Inr False
      \<and> and_then (source_type e = ''go'') (is_modeled (source_type e) name (Some ''go'')) = Inr False
      \<and> and_then (source_type e = ''rust'') (is_modeled (source_type e) name (Some ''rust'')) = Inr False
      \<and> is_modeled (source_type e) name (Some ''wasi'') = Inr False
      \<and> name \<notin> set TERMINATED_FUNCS)"

section \<open>A z3 instance and a state for the examples\<close>

text \<open>
  The examples below run the emulators on concrete inputs and need concrete answers from
  z3. \<open>simplify_lit\<close> folds an equality or a disequality of two bit-vector numerals to
  the literal true or false, writes any other disequality as the negation of the equality,
  replaces a disjunction of one term by that term and returns every other term as it is
  (z3 may write such a term in another way; it then is no literal either). \<open>check_lit\<close>
  answers \<open>unsat\<close> for a list of assertions that holds the literal false and \<open>sat\<close>
  otherwise. \<open>z3_lit\<close> builds no constant from a text: its parsers refuse every text.
\<close>

definition simplify_lit :: "expr \<Rightarrow> expr" where
  "simplify_lit e =
     (case e of
        App f t [BitVecNum a w, BitVecNum b w'] \<Rightarrow>
          if f = ''='' then BoolVal (a = b)
          else if f = ''distinct'' then BoolVal (a \<noteq> b)
          else e
      | App f t [a, b] \<Rightarrow>
          if f = ''distinct'' then App ''not'' BoolSort [App ''='' BoolSort [a, b]] else e
      | App f t [a] \<Rightarrow> if f = ''or'' then a else e
      | _ \<Rightarrow> e)"

definition check_lit :: "expr list \<Rightarrow> check_result" where
  "check_lit as = (if BoolVal False \<in> set as then unsat else sat)"

definition z3_lit :: z3_api where
  "z3_lit = \<lparr>simplify = simplify_lit, check = check_lit,
             str_of = (\<lambda>e. ''b''), num_of_str = (\<lambda>s. None),
             fp_of_str = (\<lambda>s eb sb. Inl Z3Exception),
             fp_of_hex = (\<lambda>s eb sb. Inl ValueError)\<rparr>"

definition state0 :: state where
  "state0 = \<lparr>symbolic_stack = [], local_var = [], globals = [], solver = [],
             context_stack = [], current_func_name = ''$func0'', current_bb_name = ''block_0_0'',
             edge_type = [], call_indirect_callee = [],
             instr_cur_bb = ''block_0_0'', instr_xref = []\<rparr>"

definition x32 :: expr where
  "x32 = Const ''x'' (BitVecSort 32)"

definition x32_ne_0 :: expr where
  "x32_ne_0 = App ''not'' BoolSort [App ''='' BoolSort [x32, BitVecNum 0 32]]"

definition state_unsat :: state where
  "state_unsat = state0\<lparr>symbolic_stack := [x32], solver := [BoolVal False]\<rparr>"

text \<open>An environment with two internal functions and no modelled library in reach:
  function 0 takes no parameter, function 1 takes two and returns one value.\<close>

definition parse_digit :: "string \<Rightarrow> int option" where
  "parse_digit t =
     (if t = ''0'' then Some 0 else if t = ''1'' then Some 1 else if t = ''2'' then Some 2
      else None)"

definition env0 :: env where
  "env0 = \<lparr>func_prototypes =
              [(''$func0'', [], [], ''local''), (''$func1'', ''i32 i32'', ''i32'', ''local'')],
            elements_offset = Some 1,
            elem_index_to_func = (\<lambda>i. if i = 0 then Some ''$func1'' else None),
            readable_internal_func_name = (\<lambda>n. n),
            dsl_flag = False,
            source_type = ''c'',
            py_int = parse_digit,
            py_int16 = parse_digit,
            c_emul = (\<lambda>n s p r. Inr [s]),
            go_emul = (\<lambda>n s p r. Inr [s]),
            wasi_emul = (\<lambda>n s p r. Inr [s])\<rparr>"

definition y32 :: expr where
  "y32 = Const ''y'' (BitVecSort 32)"

definition state_sparse :: state where
  "state_sparse = state0\<lparr>symbolic_stack := [x32, y32],
                          local_var := [(0, BitVecNum 10 32), (3, BitVecNum 30 32)]\<rparr>"

definition state_dense :: state where
  "state_dense = state0\<lparr>symbolic_stack := [x32, y32], local_var := [(0, BitVecNum 10 32)]\<rparr>"

definition after_call :: state where
  "after_call = state0\<lparr>symbolic_stack := [],
                  context_stack := [(''$func0'', ''block_0_0'', [], [(0, BitVecNum 10 32)], True)],
                  local_var := [(0, x32), (1, y32)],
                  current_func_name := ''$func1''\<rparr>"

definition before_return :: state where
  "before_return = after_call\<lparr>symbolic_stack := [y32, BitVecNum 7 32], instr_xref := [0]\<rparr>"

text \<open>The same instance with a parser of the numerals 0, 1 and 2.\<close>

definition z3_num :: z3_api where
  "z3_num = z3_lit\<lparr>num_of_str := parse_digit\<rparr>"

definition state_x :: state where
  "state_x = state0\<lparr>symbolic_stack := [x32]\<rparr>"

text \<open>The three states that \<^verbatim>\<open>br_table\<close> with the operands 2, 0, 1, 0 (two branches, to
  the targets 0 and 1, and the default) returns on \<open>state_x\<close> under \<open>z3_lit\<close>.\<close>

definition br_table_states :: "state list" where
  "br_table_states =
     [state0\<lparr>solver := [App ''='' BoolSort [x32, BitVecNum 0 32]],
              edge_type := ''conditional_true_0''\<rparr>,
      state0\<lparr>solver := [App ''='' BoolSort [x32, BitVecNum 1 32]],
              edge_type := ''conditional_true_1''\<rparr>,
      state0\<lparr>solver := [App ''or'' BoolSort
                             [App ''bvsge'' BoolSort [x32, BitVecNum 2 32],
                              App ''bvslt'' BoolSort [x32, BitVecNum 0 32]]],
              edge_type := ''conditional_false_0''\<rparr>]"








section \<open>Basic facts\<close>

lemma bnd_simps [simp]: "bnd (Inl e) f = Inl e" "bnd (Inr x) f = f x"
  by (simp_all add: bnd_def)

lemma pop_snoc [simp]: "pop (st @ [v]) = Inr (v, st)"
  by (simp add: pop_def)

lemma pop_Nil [simp]: "pop [] = Inl IndexError"
  by (simp add: pop_def)

section \<open>Facts about the examples\<close>

lemma br_if_names: "''br_if'' \<notin> set skip_command" "''br_if'' \<notin> set term_command"
  "''if'' \<notin> set skip_command" "''if'' \<notin> set term_command"
  by (simp_all add: skip_command_def term_command_def)

lemma emulate_control_br_if:
  "n = ''br_if'' \<or> n = ''if'' \<Longrightarrow> emulate_control z e n operand str s = emulate_br_if z s"
  by (auto simp: emulate_control_def br_if_names)

lemma x32_is_bv: "is_bv x32"
  by (simp add: x32_def is_bv_def)

lemma br_condition_x32: "br_condition z3_lit x32 = Inr x32_ne_0"
  by (simp add: br_condition_def is_bv_def bv_cmp_int_def BitVecVal_def z3_lit_def
      simplify_lit_def x32_def x32_ne_0_def)

lemma x32_ne_0_symbolic: "\<not> is_true x32_ne_0 \<and> \<not> is_false x32_ne_0"
  by (simp add: is_true_def is_false_def x32_ne_0_def)

lemma refuted_both:
  "BoolVal False \<in> set (solver s) \<Longrightarrow> no_need_true z3_lit s c \<and> no_need_false z3_lit s c"
  by (simp add: no_need_true_def no_need_false_def one_time_query_cache_def z3_lit_def
      check_lit_def)

lemma pop_n_append: "pop_n (length args) (rest @ args) = Inr (rev args, rest)"
proof (induction args rule: rev_induct)
  case Nil
  then show ?case by simp
next
  case (snoc x xs)
  have "pop_n (Suc (length xs)) ((rest @ xs) @ [x]) = Inr (x # rev xs, rest)"
    by (simp add: snoc.IH del: append_assoc)
  then show ?case by simp
qed

lemma call_names: "''call'' \<notin> set skip_command" "''call'' \<notin> set term_command"
  "''nop'' \<notin> set skip_command" "''nop'' \<notin> set term_command"
  by (simp_all add: skip_command_def term_command_def)

lemma emulate_control_call:
  "emulate_control z e ''call'' operand str s = emulate_call e str s"
  by (simp add: emulate_control_def call_names)

lemma emulate_control_nop:
  "instr_xref s \<noteq> [] \<Longrightarrow>
   emulate_control z e ''nop'' operand str s = bnd (restore_context s) (\<lambda>s'. Inr [s'])"
  by (simp add: emulate_control_def call_names)

lemma deal_with_call_internal:
  assumes "py_index (func_prototypes e) f_offset = Inr (callee, param_str, return_str, u)"
    and "is_internal e (readable_internal_func_name e callee)"
  shows "deal_with_call e s f_offset =
         bnd (store_context param_str return_str s (readable_internal_func_name e callee))
           (\<lambda>s'. Inr [s'])"
  using assms by (auto simp: deal_with_call_def is_internal_def Let_def)

lemma store_context_args:
  assumes "num_args param_str = length args" and "symbolic_stack s = rest @ args"
  shows "store_context param_str return_str s callee =
         Inr (s\<lparr>symbolic_stack := rest,
                context_stack := context_stack s @
                  [(current_func_name s, instr_cur_bb s, rest, local_var s, return_str \<noteq> [])],
                local_var := clear_locals (length args)
                               (assign_args (length args) (rev args) (local_var s)),
                current_func_name := callee\<rparr>)"
  using assms by (simp add: store_context_def pop_n_append Let_def)

lemma call_offset_env0: "call_offset env0 ''call 1'' = Inr 1"
  by (simp add: call_offset_def py_index_def env0_def parse_digit_def)

lemma proto_env0:
  "py_index (func_prototypes env0) 1 = Inr (''$func1'', ''i32 i32'', ''i32'', ''local'')"
  by (simp add: py_index_def env0_def)

lemma readable_env0: "readable_internal_func_name env0 n = n"
  by (simp add: env0_def)

lemma internal_env0: "is_internal env0 (readable_internal_func_name env0 ''$func1'')"
  by (simp add: readable_env0 is_internal_def and_then_def is_modeled_def in_modeled_def
      MODELED_FUNCS_def TERMINATED_FUNCS_def env0_def)

lemma num_args_two: "num_args ''i32 i32'' = length [a, b]"
  by (simp add: num_args_def)

section \<open>Branch forking in \<^verbatim>\<open>br_if\<close> and \<^verbatim>\<open>if\<close>\<close>

text \<open>
  Claim C1. \<^verbatim>\<open>br_if\<close> or \<^verbatim>\<open>if\<close> pops the condition \<open>op\<close>; \<open>c\<close> is the condition the
  code branches on (\<open>op\<close> itself for a boolean, \<^verbatim>\<open>simplify(op != 0)\<close> for a bit-vector).
  When \<open>c\<close> is neither the literal true nor the literal false and the solver refutes
  neither (path constraint and \<open>c\<close>) nor (path constraint and not \<open>c\<close>), emulation
  returns exactly two states: both are the popped state, the first with \<open>c\<close> added
  to its solver and the true edge, the second with the negation of \<open>c\<close> added to its
  solver and the false edge. The two added constraints are a formula and its negation:
  no assignment satisfies both, every assignment satisfies one.
\<close>

theorem br_if_symbolic_fork:
  assumes name: "instr_name = ''br_if'' \<or> instr_name = ''if''"
    and ty: "is_bv op \<or> is_bool op"
    and cond: "br_condition z op = Inr c"
    and symbolic: "\<not> is_true c \<and> \<not> is_false c"
    and sat_true: "one_time_query_cache z (solver s) c \<noteq> unsat"
    and sat_false: "one_time_query_cache z (solver s) (z3_Not c) \<noteq> unsat"
  shows "emulate_control z e instr_name instr_operand instr_string
           (s\<lparr>symbolic_stack := st @ [op]\<rparr>)
         = Inr [s\<lparr>symbolic_stack := st, edge_type := ''conditional_true_0'',
                   solver := solver s @ [c]\<rparr>,
                s\<lparr>symbolic_stack := st, edge_type := ''conditional_false_0'',
                   solver := solver s @ [z3_Not c]\<rparr>]"
  using assms
  by (simp add: emulate_control_br_if emulate_br_if_def py_assert_def br_if_branches_def
        no_need_true_def no_need_false_def solver_add_def set_edge_def)

theorem br_if_symbolic_fork_witness:
  "(''br_if'' = ''br_if'' \<or> ''br_if'' = ''if'')
   \<and> (is_bv x32 \<or> is_bool x32)
   \<and> br_condition z3_lit x32 = Inr x32_ne_0
   \<and> (\<not> is_true x32_ne_0 \<and> \<not> is_false x32_ne_0)
   \<and> one_time_query_cache z3_lit (solver state0) x32_ne_0 \<noteq> unsat
   \<and> one_time_query_cache z3_lit (solver state0) (z3_Not x32_ne_0) \<noteq> unsat
   \<and> emulate_control z3_lit env0 ''br_if'' [] ''br_if 0'' (state0\<lparr>symbolic_stack := [] @ [x32]\<rparr>)
       = Inr [state0\<lparr>symbolic_stack := [], edge_type := ''conditional_true_0'',
                      solver := solver state0 @ [x32_ne_0]\<rparr>,
              state0\<lparr>symbolic_stack := [], edge_type := ''conditional_false_0'',
                      solver := solver state0 @ [z3_Not x32_ne_0]\<rparr>]"
proof -
  have h1: "''br_if'' = ''br_if'' \<or> ''br_if'' = ''if''" by simp
  have h2: "is_bv x32 \<or> is_bool x32" by (simp add: x32_is_bv)
  have h5: "one_time_query_cache z3_lit (solver state0) x32_ne_0 \<noteq> unsat"
    by (simp add: one_time_query_cache_def z3_lit_def check_lit_def state0_def x32_ne_0_def)
  have h6: "one_time_query_cache z3_lit (solver state0) (z3_Not x32_ne_0) \<noteq> unsat"
    by (simp add: one_time_query_cache_def z3_lit_def check_lit_def state0_def z3_Not_def)
  show ?thesis
    using br_if_symbolic_fork [OF h1 h2 br_condition_x32 x32_ne_0_symbolic h5 h6,
        of env0 "[]" "''br_if 0''" "[]"]
      h1 h2 br_condition_x32 x32_ne_0_symbolic h5 h6
    by blast
qed

text \<open>
  Claim C2, as stated, fails: with a symbolic condition and a path constraint under which
  the solver refutes both sides, \<^verbatim>\<open>br_if\<close> runs the \<^verbatim>\<open>pass\<close> branch and returns the empty
  list of states. No error is reported; the \<^verbatim>\<open>exit\<close> call at the end of the branch chain
  cannot be reached.
\<close>

theorem br_if_both_unsat_counterexample:
  "emulate_control z3_lit env0 ''br_if'' [] ''br_if 0'' state_unsat = Inr []"
  by (simp add: emulate_control_br_if emulate_br_if_def state_unsat_def
      pop_def py_assert_def x32_is_bv br_condition_x32 br_if_branches_def
      x32_ne_0_symbolic refuted_both)

text \<open>
  Claim C2, amended. When the condition of \<^verbatim>\<open>br_if\<close> or \<^verbatim>\<open>if\<close> is symbolic and the
  solver refutes both (path constraint and condition) and (path constraint and negated
  condition), emulation returns an empty sequence of successor states and reports no
  error.
\<close>

theorem br_if_both_unsat_empty:
  assumes name: "instr_name = ''br_if'' \<or> instr_name = ''if''"
    and ty: "is_bv op \<or> is_bool op"
    and cond: "br_condition z op = Inr c"
    and symbolic: "\<not> is_true c \<and> \<not> is_false c"
    and unsat_true: "one_time_query_cache z (solver s) c = unsat"
    and unsat_false: "one_time_query_cache z (solver s) (z3_Not c) = unsat"
  shows "emulate_control z e instr_name instr_operand instr_string
           (s\<lparr>symbolic_stack := st @ [op]\<rparr>) = Inr []"
  using assms
  by (simp add: emulate_control_br_if emulate_br_if_def py_assert_def br_if_branches_def
        no_need_true_def no_need_false_def solver_add_def set_edge_def)

theorem br_if_both_unsat_empty_witness:
  "(''if'' = ''br_if'' \<or> ''if'' = ''if'')
   \<and> (is_bv x32 \<or> is_bool x32)
   \<and> br_condition z3_lit x32 = Inr x32_ne_0
   \<and> (\<not> is_true x32_ne_0 \<and> \<not> is_false x32_ne_0)
   \<and> one_time_query_cache z3_lit (solver state_unsat) x32_ne_0 = unsat
   \<and> one_time_query_cache z3_lit (solver state_unsat) (z3_Not x32_ne_0) = unsat
   \<and> emulate_control z3_lit env0 ''if'' [] ''if'' (state_unsat\<lparr>symbolic_stack := [] @ [x32]\<rparr>)
       = Inr []"
proof -
  have h1: "''if'' = ''br_if'' \<or> ''if'' = ''if''" by simp
  have h2: "is_bv x32 \<or> is_bool x32" by (simp add: x32_is_bv)
  have h5: "one_time_query_cache z3_lit (solver state_unsat) x32_ne_0 = unsat"
    by (simp add: one_time_query_cache_def z3_lit_def check_lit_def state_unsat_def)
  have h6: "one_time_query_cache z3_lit (solver state_unsat) (z3_Not x32_ne_0) = unsat"
    by (simp add: one_time_query_cache_def z3_lit_def check_lit_def state_unsat_def)
  show ?thesis
    using br_if_both_unsat_empty [OF h1 h2 br_condition_x32 x32_ne_0_symbolic h5 h6,
        of env0 "[]" "''if''" "[]"]
      h1 h2 br_condition_x32 x32_ne_0_symbolic h5 h6
    by blast
qed

section \<open>\<^verbatim>\<open>select\<close> on a concrete condition\<close>

text \<open>
  Claim C7. With 9 pushed first, 5 pushed second and the 32-bit condition 0 pushed last,
  \<^verbatim>\<open>select\<close> pops the condition, then 5, then 9; z3 folds the comparison of the
  condition with zero to the literal true, and the emulator returns one state whose top
  of stack is the constant 5.
\<close>

theorem select_zero_condition:
  assumes fold: "simplify z (App ''='' BoolSort [BitVecNum 0 32, BitVecNum 0 32]) = BoolVal True"
  shows "emulate_parametric z ''select''
           (s\<lparr>symbolic_stack := st @ [BitVecVal 9 32, BitVecVal 5 32, BitVecVal 0 32]\<rparr>)
         = Inr (Some [s\<lparr>symbolic_stack := st @ [BitVecVal 5 32]\<rparr>])"
proof -
  have pops: "pop (st @ [BitVecVal 9 32, BitVecVal 5 32, BitVecVal 0 32])
                = Inr (BitVecVal 0 32, st @ [BitVecVal 9 32, BitVecVal 5 32])"
       "pop (st @ [BitVecVal 9 32, BitVecVal 5 32]) = Inr (BitVecVal 5 32, st @ [BitVecVal 9 32])"
    by (simp_all add: pop_def butlast_append)
  have c: "select_condition z (BitVecVal 0 32) = Inr (Some (BoolVal True))"
    using fold by (simp add: select_condition_def is_bv_def BitVecVal_def bv_cmp_int_def)
  show ?thesis
    by (simp add: emulate_parametric_def pops c py_assert_def select_branches_def
        is_true_def push_def)
       (simp add: is_bv_def BitVecVal_def)
qed

theorem select_zero_condition_witness:
  "simplify z3_lit (App ''='' BoolSort [BitVecNum 0 32, BitVecNum 0 32]) = BoolVal True
   \<and> emulate_parametric z3_lit ''select''
        (state0\<lparr>symbolic_stack := [] @ [BitVecVal 9 32, BitVecVal 5 32, BitVecVal 0 32]\<rparr>)
      = Inr (Some [state0\<lparr>symbolic_stack := [] @ [BitVecVal 5 32]\<rparr>])"
proof -
  have h: "simplify z3_lit (App ''='' BoolSort [BitVecNum 0 32, BitVecNum 0 32]) = BoolVal True"
    by (simp add: z3_lit_def simplify_lit_def)
  show ?thesis
    using select_zero_condition [OF h, where s = state0 and st = "[]"] h by blast
qed

section \<open>\<^verbatim>\<open>get_local\<close>\<close>

text \<open>
  Claim C9, as stated, fails for an index that has no entry in the local-variable map:
  the lookup \<^verbatim>\<open>state.local_var[op]\<close> raises KeyError, nothing is pushed and no state is
  returned.
\<close>

theorem get_local_absent_counterexample:
  "emulate_variable z3_lit ''get_local'' [0] state0 = Inl KeyError"
  by (simp add: emulate_variable_def strip_marker_def state0_def dict_get_def get_is_not_None_def)

text \<open>
  Claim C9, amended. For every state and every local index that has an entry in the
  local-variable map, \<^verbatim>\<open>get_local\<close> pushes the stored value, whatever it is (the
  \<^verbatim>\<open>None\<close> sentinel of an uninitialized local included), and returns one state; no
  uninitialized-variable error is raised.
\<close>

theorem get_local_present:
  assumes "map_of (local_var s) (from_bytes_little (strip_marker operand)) = Some v"
  shows "emulate_variable z ''get_local'' operand s
         = Inr [s\<lparr>symbolic_stack := symbolic_stack s @ [v]\<rparr>]"
  using assms by (simp add: emulate_variable_def dict_get_def push_def)

theorem get_local_present_witness:
  "map_of (local_var (state0\<lparr>local_var := [(0, PyNone)]\<rparr>)) (from_bytes_little (strip_marker [0]))
     = Some PyNone
   \<and> emulate_variable z3_lit ''get_local'' [0] (state0\<lparr>local_var := [(0, PyNone)]\<rparr>)
     = Inr [state0\<lparr>local_var := [(0, PyNone)],
              symbolic_stack := symbolic_stack (state0\<lparr>local_var := [(0, PyNone)]\<rparr>) @ [PyNone]\<rparr>]"
proof -
  have h: "map_of (local_var (state0\<lparr>local_var := [(0, PyNone)]\<rparr>))
             (from_bytes_little (strip_marker [0])) = Some PyNone"
    by (simp add: strip_marker_def)
  show ?thesis
    using get_local_present [OF h, of z3_lit] h by simp
qed

section \<open>\<^verbatim>\<open>copysign\<close>\<close>

text \<open>
  Claim C4 fails on the code. The guard of the \<^verbatim>\<open>copysign\<close> branch is the chained
  comparison \<^verbatim>\<open>'.copysign' in name == 'f32.copysign'\<close>, so \<^verbatim>\<open>f64.copysign\<close> enters no
  branch; and the \<^verbatim>\<open>f32\<close> branch assigns \<^verbatim>\<open>result\<close> only when the two answers of
  \<^verbatim>\<open>isPositive()\<close> differ. In both cases \<^verbatim>\<open>result\<close> is unbound when
  \<^verbatim>\<open>simplify(result)\<close> reads it: for any two float numerals of the 64-bit shape, and for
  any two of the 32-bit shape on which \<^verbatim>\<open>isPositive()\<close> gives the same answer (two
  numerals of equal sign that are no NaN, for one), emulation raises UnboundLocalError
  instead of pushing a value.
\<close>

theorem copysign_unbound_result:
  "emulate_arithmetic z ''f64.copysign''
     (s\<lparr>symbolic_stack := st @ [FPNum sg2 m2 11 53, FPNum sg1 m1 11 53]\<rparr>)
     = Inl UnboundLocalError
   \<and> (isPositive (FPNum sa ma 8 24) = isPositive (FPNum sb mb 8 24) \<longrightarrow>
       emulate_arithmetic z ''f32.copysign''
         (s\<lparr>symbolic_stack := st @ [FPNum sb mb 8 24, FPNum sa ma 8 24]\<rparr>)
         = Inl UnboundLocalError)"
proof -
  have pops: "\<And>a b. pop (st @ [a, b]) = Inr (b, st @ [a])"
    by (simp add: pop_def butlast_append)
  have f64: "emulate_arithmetic z ''f64.copysign''
     (s\<lparr>symbolic_stack := st @ [FPNum sg2 m2 11 53, FPNum sg1 m1 11 53]\<rparr>)
     = Inl UnboundLocalError"
    by (simp add: emulate_arithmetic_def do_emulate_arithmetic_float_instruction_def pops
        assert_float_def ebits_def sbits_def float_bits_def helper_map_def py_assert_def
        float_binop_def push_result_def)
  have f32: "emulate_arithmetic z ''f32.copysign''
         (s\<lparr>symbolic_stack := st @ [FPNum sb mb 8 24, FPNum sa ma 8 24]\<rparr>)
         = Inl UnboundLocalError"
    if "isPositive (FPNum sa ma 8 24) = isPositive (FPNum sb mb 8 24)"
  proof -
    from that have none: "float_binop ''f32.copysign'' (FPNum sa ma 8 24) (FPNum sb mb 8 24)
                          = Inr None"
      by (auto simp: float_binop_def)
    show ?thesis
      by (simp add: emulate_arithmetic_def do_emulate_arithmetic_float_instruction_def pops
          assert_float_def ebits_def sbits_def float_bits_def helper_map_def py_assert_def
          none push_result_def)
  qed
  from f64 f32 show ?thesis by blast
qed

text \<open>The two inputs: \<^verbatim>\<open>f64.copysign\<close> on 2.0 (pushed first) and -1.0, and
  \<^verbatim>\<open>f32.copysign\<close> on 2.0 (pushed first) and 3.0.\<close>

theorem copysign_unbound_result_witness:
  "emulate_arithmetic z3_lit ''f64.copysign''
     (state0\<lparr>symbolic_stack := [] @ [FPNum False 0x4000000000000000 11 53,
                                      FPNum True 0x3FF0000000000000 11 53]\<rparr>)
     = Inl UnboundLocalError
   \<and> isPositive (FPNum False 0x40400000 8 24) = isPositive (FPNum False 0x40000000 8 24)
   \<and> emulate_arithmetic z3_lit ''f32.copysign''
       (state0\<lparr>symbolic_stack := [] @ [FPNum False 0x40000000 8 24,
                                        FPNum False 0x40400000 8 24]\<rparr>)
       = Inl UnboundLocalError"
proof -
  have h: "isPositive (FPNum False 0x40400000 8 24) = isPositive (FPNum False 0x40000000 8 24)"
    by (simp add: is_nan_def)
  show ?thesis
    using copysign_unbound_result [where z = z3_lit and s = state0 and st = "[]"
        and ?sg2.0 = False and ?m2.0 = "0x4000000000000000"
        and ?sg1.0 = True and ?m1.0 = "0x3FF0000000000000"
        and sa = False and ma = "0x40400000" and sb = False and mb = "0x40000000"] h
    by blast
qed

section \<open>Call and return\<close>

text \<open>
  Claim C5 fails on the code. The loop that clears the caller's locals runs over
  \<^verbatim>\<open>range(num_arg, len(state.local_var))\<close>: its upper bound is the number of entries,
  not the largest index. A caller whose locals are 0 and 3 calls a function of two
  parameters: the map then has three entries, the loop visits index 2 only, and local 3
  of the caller is still present in the callee's map.
\<close>

theorem call_keeps_sparse_local:
  "emulate_control z3_lit env0 ''call'' [] ''call 1'' state_sparse
   = Inr [state0\<lparr>symbolic_stack := [],
                  context_stack := [(''$func0'', ''block_0_0'', [],
                                     [(0, BitVecNum 10 32), (3, BitVecNum 30 32)], True)],
                  local_var := [(0, x32), (3, BitVecNum 30 32), (1, y32)],
                  current_func_name := ''$func1''\<rparr>]"
proof -
  have stack: "symbolic_stack state_sparse = [] @ [x32, y32]"
    by (simp add: state_sparse_def)
  show ?thesis
    by (simp add: emulate_control_call emulate_call_def call_offset_env0
        deal_with_call_internal [OF proto_env0 internal_env0] readable_env0
        store_context_args [OF num_args_two stack])
       (simp add: state_sparse_def state0_def clear_locals_def assign_args_def)
qed

text \<open>
  Claim C6. A \<^verbatim>\<open>call\<close> into an internal function with \<open>length args\<close> parameters and
  a declared return value, on a stack \<open>rest @ args\<close>, returns one state \<open>s1\<close>. Whenever
  the callee has finished in a state \<open>s2\<close> whose context stack is that of \<open>s1\<close> and
  whose stack has the return value \<open>rv\<close> on top, the return (a \<^verbatim>\<open>nop\<close> at the
  function's exit) yields one state whose stack is \<open>rest @ [rv]\<close>, the stack before the
  call with the arguments replaced by the return value, and whose locals are the
  caller's locals before the call.
\<close>

theorem call_return_round_trip:
  assumes target: "call_offset e instr_string = Inr f_offset"
    and proto: "py_index (func_prototypes e) f_offset = Inr (callee, param_str, return_str, u)"
    and internal: "is_internal e (readable_internal_func_name e callee)"
    and params: "num_args param_str = length args"
    and returns: "return_str \<noteq> []"
    and stack: "symbolic_stack s = rest @ args"
  shows "\<exists>s1. emulate_control z e ''call'' ops instr_string s = Inr [s1]
           \<and> (\<forall>s2 cs rv.
                 context_stack s2 = context_stack s1 \<and> symbolic_stack s2 = cs @ [rv]
                   \<and> instr_xref s2 \<noteq> [] \<longrightarrow>
                 (\<exists>s3. emulate_control z e ''nop'' ops' str' s2 = Inr [s3]
                    \<and> symbolic_stack s3 = rest @ [rv] \<and> local_var s3 = local_var s))"
proof -
  let ?s1 = "s\<lparr>symbolic_stack := rest,
                context_stack := context_stack s @
                  [(current_func_name s, instr_cur_bb s, rest, local_var s, return_str \<noteq> [])],
                local_var := clear_locals (length args)
                               (assign_args (length args) (rev args) (local_var s)),
                current_func_name := readable_internal_func_name e callee\<rparr>"
  have call: "emulate_control z e ''call'' ops instr_string s = Inr [?s1]"
    by (simp add: emulate_control_call emulate_call_def target
        deal_with_call_internal [OF proto internal] store_context_args [OF params stack])
  have ret: "\<exists>s3. emulate_control z e ''nop'' ops' str' s2 = Inr [s3]
               \<and> symbolic_stack s3 = rest @ [rv] \<and> local_var s3 = local_var s"
    if "context_stack s2 = context_stack ?s1" "symbolic_stack s2 = cs @ [rv]"
       "instr_xref s2 \<noteq> []" for s2 cs rv
    using that returns
    by (simp add: emulate_control_nop restore_context_def)
  show ?thesis using call ret by blast
qed

theorem call_return_round_trip_witness:
  "call_offset env0 ''call 1'' = Inr 1
   \<and> py_index (func_prototypes env0) 1 = Inr (''$func1'', ''i32 i32'', ''i32'', ''local'')
   \<and> is_internal env0 (readable_internal_func_name env0 ''$func1'')
   \<and> num_args ''i32 i32'' = length [x32, y32]
   \<and> ''i32'' \<noteq> []
   \<and> symbolic_stack state_dense = [] @ [x32, y32]
   \<and> emulate_control z3_lit env0 ''call'' [] ''call 1'' state_dense = Inr [after_call]
   \<and> (\<exists>s3. emulate_control z3_lit env0 ''nop'' [] ''nop'' before_return = Inr [s3]
         \<and> symbolic_stack s3 = [] @ [BitVecNum 7 32]
         \<and> local_var s3 = local_var state_dense)"
proof -
  have stack: "symbolic_stack state_dense = [] @ [x32, y32]"
    by (simp add: state_dense_def)
  have ret: "''i32'' \<noteq> []" by simp
  have call: "emulate_control z3_lit env0 ''call'' [] ''call 1'' state_dense = Inr [after_call]"
    by (simp add: emulate_control_call emulate_call_def call_offset_env0
        deal_with_call_internal [OF proto_env0 internal_env0] readable_env0
        store_context_args [OF num_args_two stack])
       (simp add: state_dense_def state0_def after_call_def clear_locals_def assign_args_def)
  have s2: "context_stack before_return = context_stack after_call
            \<and> symbolic_stack before_return = [y32] @ [BitVecNum 7 32]
            \<and> instr_xref before_return \<noteq> []"
    by (simp add: before_return_def)
  from call_return_round_trip [OF call_offset_env0 proto_env0 internal_env0 num_args_two ret stack,
      of z3_lit "[]" "[]" "''nop''"]
  obtain s1 where s1: "emulate_control z3_lit env0 ''call'' [] ''call 1'' state_dense = Inr [s1]"
    and resume: "\<forall>s2 cs rv.
                 context_stack s2 = context_stack s1 \<and> symbolic_stack s2 = cs @ [rv]
                   \<and> instr_xref s2 \<noteq> [] \<longrightarrow>
                 (\<exists>s3. emulate_control z3_lit env0 ''nop'' [] ''nop'' s2 = Inr [s3]
                    \<and> symbolic_stack s3 = [] @ [rv] \<and> local_var s3 = local_var state_dense)"
    by blast
  from s1 call have "s1 = after_call" by simp
  with resume s2 have "\<exists>s3. emulate_control z3_lit env0 ''nop'' [] ''nop'' before_return = Inr [s3]
         \<and> symbolic_stack s3 = [] @ [BitVecNum 7 32]
         \<and> local_var s3 = local_var state_dense"
    by blast
  then show ?thesis
    using call_offset_env0 proto_env0 internal_env0 num_args_two [of x32 y32] ret stack call
    by blast
qed

section \<open>The reinterpretation round trip\<close>








section \<open>The number of successor states\<close>

lemma bnd_InrE:
  assumes "bnd m f = Inr y"
  obtains x where "m = Inr x" and "f x = Inr y"
  using assms by (cases m) (simp_all add: bnd_def)

lemma push_result_length: "push_result z s st r = Inr sts \<Longrightarrow> length sts = 1"
  by (auto simp: push_result_def split: option.splits)

lemma arithmetic_int_length:
  "do_emulate_arithmetic_int_instruction z name s = Inr sts \<Longrightarrow> length sts = 1"
  by (auto simp: do_emulate_arithmetic_int_instruction_def Let_def
      elim!: bnd_InrE split: if_splits prod.splits)

lemma arithmetic_float_length:
  "do_emulate_arithmetic_float_instruction z name s = Inr sts \<Longrightarrow> length sts = 1"
  unfolding do_emulate_arithmetic_float_instruction_def Let_def
  by (auto elim!: bnd_InrE dest!: push_result_length split: if_splits prod.splits)

lemma emulate_arithmetic_length: "emulate_arithmetic z name s = Inr sts \<Longrightarrow> length sts = 1"
  by (auto simp: emulate_arithmetic_def dest: arithmetic_int_length arithmetic_float_length
      split: if_splits)

lemma emulate_bitwise_length: "emulate_bitwise z name s = Inr sts \<Longrightarrow> length sts = 1"
  by (auto simp: emulate_bitwise_def Let_def elim!: bnd_InrE split: if_splits prod.splits)

lemma emulate_constant_length: "emulate_constant z str s = Inr sts \<Longrightarrow> length sts = 1"
  by (auto simp: emulate_constant_def Let_def elim!: bnd_InrE
      split: if_splits prod.splits option.splits)

lemma convert_length: "convert z s st pre e post = Inr sts \<Longrightarrow> length sts = 1"
  by (auto simp: convert_def Let_def elim!: bnd_InrE)

lemma emulate_conversion_length: "emulate_conversion z name s = Inr sts \<Longrightarrow> length sts = 1"
  unfolding emulate_conversion_def
  by (auto elim!: bnd_InrE dest!: convert_length split: if_splits prod.splits)

lemma get_global_length: "get_global z s i = Inr sts \<Longrightarrow> length sts = 1"
  by (auto simp: get_global_def elim!: bnd_InrE split: gval.splits option.splits if_splits)

lemma emulate_variable_length: "emulate_variable z name operand s = Inr sts \<Longrightarrow> length sts = 1"
  by (auto simp: emulate_variable_def Let_def elim!: bnd_InrE dest!: get_global_length
      split: if_splits prod.splits)

lemma select_branches_length:
  "select_branches z s opv a b = Inr (Some sts) \<Longrightarrow> 1 \<le> length sts \<and> length sts \<le> 2"
  by (auto simp: select_branches_def split: option.splits if_splits)

lemma emulate_parametric_length:
  "emulate_parametric z name s = Inr (Some sts) \<Longrightarrow> 1 \<le> length sts \<and> length sts \<le> 2"
  by (auto simp: emulate_parametric_def elim!: bnd_InrE dest!: select_branches_length
      split: if_splits prod.splits)


lemma restore_context_nop_length:
  "bnd (restore_context s) (\<lambda>s'. Inr [s']) = Inr sts \<Longrightarrow> length sts = 1"
  by (auto elim!: bnd_InrE)

lemma br_if_branches_length: "br_if_branches z s op = Inr sts \<Longrightarrow> length sts \<le> 2"
  by (auto simp: br_if_branches_def split: if_splits)

lemma emulate_br_if_length: "emulate_br_if z s = Inr sts \<Longrightarrow> length sts \<le> 2"
  by (auto simp: emulate_br_if_def elim!: bnd_InrE dest!: br_if_branches_length
      split: prod.splits)

lemma deal_with_call_length:
  assumes c: "\<forall>n s p r sts. c_emul e n s p r = Inr sts \<longrightarrow> length sts \<le> 2"
    and go: "\<forall>n s p r sts. go_emul e n s p r = Inr sts \<longrightarrow> length sts \<le> 2"
    and wasi: "\<forall>n s p r sts. wasi_emul e n s p r = Inr sts \<longrightarrow> length sts \<le> 2"
    and call: "deal_with_call e s f_offset = Inr sts"
  shows "length sts \<le> 2"
proof -
  have c': "length sts \<le> 2" if "c_emul e n s p r = Inr sts" for n s p r sts
    using c that by blast
  have go': "length sts \<le> 2" if "go_emul e n s p r = Inr sts" for n s p r sts
    using go that by blast
  have wasi': "length sts \<le> 2" if "wasi_emul e n s p r = Inr sts" for n s p r sts
    using wasi that by blast
  show ?thesis
    using call unfolding deal_with_call_def Let_def
    by (auto elim!: bnd_InrE split: if_splits prod.splits option.splits)
       (erule c' go' wasi')+
qed

lemma emulate_call_length:
  assumes c: "\<forall>n s p r sts. c_emul e n s p r = Inr sts \<longrightarrow> length sts \<le> 2"
    and go: "\<forall>n s p r sts. go_emul e n s p r = Inr sts \<longrightarrow> length sts \<le> 2"
    and wasi: "\<forall>n s p r sts. wasi_emul e n s p r = Inr sts \<longrightarrow> length sts \<le> 2"
    and call: "emulate_call e str s = Inr sts"
  shows "length sts \<le> 2"
proof -
  from call obtain f_offset where "deal_with_call e s f_offset = Inr sts"
    unfolding emulate_call_def by (auto elim!: bnd_InrE)
  then show ?thesis by (rule deal_with_call_length [OF c go wasi])
qed

lemma emulate_call_indirect_length:
  assumes c: "\<forall>n s p r sts. c_emul e n s p r = Inr sts \<longrightarrow> length sts \<le> 2"
    and go: "\<forall>n s p r sts. go_emul e n s p r = Inr sts \<longrightarrow> length sts \<le> 2"
    and wasi: "\<forall>n s p r sts. wasi_emul e n s p r = Inr sts \<longrightarrow> length sts \<le> 2"
    and call: "emulate_call_indirect e s = Inr sts"
  shows "length sts \<le> 2"
proof -
  from call obtain s' f_offset where "deal_with_call e s' f_offset = Inr sts"
    unfolding emulate_call_indirect_def
    by (auto elim!: bnd_InrE split: prod.splits option.splits)
  then show ?thesis by (rule deal_with_call_length [OF c go wasi])
qed

lemma add_index_fst:
  "map fst (add_index g t i) = (if t \<in> fst ` set g then map fst g else map fst g @ [t])"
  by (induction g t i rule: add_index.induct) auto

lemma fold_add_index:
  "distinct (map fst g) \<Longrightarrow>
   distinct (map fst (fold (\<lambda>(index, target) g. add_index g target index) ps g))
   \<and> fst ` set (fold (\<lambda>(index, target) g. add_index g target index) ps g)
       = fst ` set g \<union> snd ` set ps"
proof (induction ps arbitrary: g)
  case Nil
  then show ?case by simp
next
  case (Cons p ps)
  obtain i t where p: "p = (i, t)" by (cases p)
  have d: "distinct (map fst (add_index g t i))"
    using Cons.prems by (simp add: add_index_fst)
  have s: "fst ` set (add_index g t i) = insert t (fst ` set g)"
    using add_index_fst [of g t i] by (metis (no_types) list.set_map set_append
        insert_absorb Un_insert_right sup_bot.right_neutral list.simps(15) empty_set)
  show ?case using Cons.IH [OF d] by (simp add: p s)
qed

lemma target_branch2index_length:
  "length (target_branch2index br_lis) = length (remdups br_lis)"
proof -
  let ?g = "target_branch2index br_lis"
  have "distinct (map fst ?g) \<and> fst ` set ?g = set br_lis"
    using fold_add_index [of "[]" "zip [0..<length br_lis] br_lis"]
    by (simp add: target_branch2index_def flip: set_map)
  then have "card (set br_lis) = length (map fst ?g)"
    by (metis distinct_card list.set_map)
  then show ?thesis by (simp add: length_remdups_card_conv)
qed

lemma br_table_groups_length: "br_table_groups z s op g = Inr sts \<Longrightarrow> length sts \<le> length g"
proof (induction g arbitrary: sts)
  case Nil
  then show ?case by simp
next
  case (Cons a g)
  obtain t il where a: "a = (t, il)" by (cases a)
  from Cons.prems obtain sts' where "br_table_groups z s op g = Inr sts'"
    and "length sts \<le> Suc (length sts')"
    by (auto simp: a Let_def elim!: bnd_InrE split: if_splits)
  then show ?case using Cons.IH by fastforce
qed

lemma br_table_default_length: "br_table_default z s op n = Inr sts \<Longrightarrow> length sts \<le> 1"
  by (auto simp: br_table_default_def Let_def elim!: bnd_InrE split: if_splits)

lemma emulate_br_table_length:
  assumes "emulate_br_table z ops s = Inr sts"
  shows "1 \<le> length sts \<and> length sts \<le> length (remdups (butlast (tl ops))) + 1"
proof -
  from assms obtain op st n_br states dflt where
    g: "br_table_groups z (s\<lparr>symbolic_stack := st\<rparr>) op (target_branch2index (butlast (tl ops)))
        = Inr states"
    and d: "br_table_default z (s\<lparr>symbolic_stack := st\<rparr>) op n_br = Inr dflt"
    and ne: "states @ dflt \<noteq> []" and sts: "sts = states @ dflt"
    by (auto simp: emulate_br_table_def Let_def py_assert_def elim!: bnd_InrE
        split: prod.splits if_splits)
  have "length sts = length states + length dflt"
    by (simp add: sts)
  moreover have "1 \<le> length states + length dflt"
    using ne by (cases states; cases dflt) simp_all
  ultimately show ?thesis
    using br_table_groups_length [OF g] br_table_default_length [OF d]
    by (simp add: target_branch2index_length)
qed

lemma emulate_control_cases:
  assumes "emulate_control z e name ops str s = Inr sts" and "name \<noteq> ''br_table''"
  shows "sts = [s] \<or> bnd (restore_context s) (\<lambda>s'. Inr [s']) = Inr sts
         \<or> emulate_br_if z s = Inr sts \<or> emulate_call_indirect e s = Inr sts
         \<or> emulate_call e str s = Inr sts"
  using assms unfolding emulate_control_def by (simp split: if_splits)

lemma emulate_control_length:
  assumes c: "\<forall>n s p r sts. c_emul e n s p r = Inr sts \<longrightarrow> length sts \<le> 2"
    and go: "\<forall>n s p r sts. go_emul e n s p r = Inr sts \<longrightarrow> length sts \<le> 2"
    and wasi: "\<forall>n s p r sts. wasi_emul e n s p r = Inr sts \<longrightarrow> length sts \<le> 2"
    and name: "name \<noteq> ''br_table''"
    and run: "emulate_control z e name ops str s = Inr sts"
  shows "length sts \<le> 2"
proof -
  consider "sts = [s]" | "bnd (restore_context s) (\<lambda>s'. Inr [s']) = Inr sts"
    | "emulate_br_if z s = Inr sts" | "emulate_call_indirect e s = Inr sts"
    | "emulate_call e str s = Inr sts"
    using emulate_control_cases [OF run name] by blast
  then show ?thesis
  proof cases
    case 1
    then show ?thesis by simp
  next
    case 2
    then show ?thesis using restore_context_nop_length by fastforce
  next
    case 3
    then show ?thesis by (rule emulate_br_if_length)
  next
    case 4
    then show ?thesis by (rule emulate_call_indirect_length [OF c go wasi])
  next
    case 5
    then show ?thesis by (rule emulate_call_length [OF c go wasi])
  qed
qed

lemma br_table_names: "''br_table'' \<notin> set skip_command" "''br_table'' \<notin> set term_command"
  by (simp_all add: skip_command_def term_command_def)

lemma emulate_control_br_table:
  "emulate_control z e ''br_table'' ops str s = emulate_br_table z ops s"
  by (simp add: emulate_control_def br_table_names)

lemma simplify_z3: "simplify z3_lit = simplify_lit" "simplify z3_num = simplify_lit"
  by (simp_all add: z3_num_def z3_lit_def)

lemma check_z3_num: "check z3_num as = check_lit as"
  by (simp add: z3_num_def z3_lit_def)

lemma str_nat_digit: "n < 10 \<Longrightarrow> str_nat n = [''0123456789'' ! n]"
  by (subst str_nat.simps) simp

lemma str_int_digits: "str_int 0 = ''0''" "str_int 1 = ''1''"
  by (simp_all add: str_int_def str_nat_digit)

lemma br_table_example:
  "simplify z = simplify_lit \<Longrightarrow>
   emulate_control z env0 ''br_table'' [2, 0, 1, 0] ''br_table 2 0 1 0'' state_x
   = Inr br_table_states"
  by (simp add: emulate_control_br_table emulate_br_table_def state_x_def pop_def py_index_def
      target_branch2index_def br_table_default_def cmp_int_def x32_def BitVecVal_def
      z3_Or_def simplify_lit_def is_true_def is_false_def set_edge_def
      solver_add_def str_int_digits py_assert_def state0_def br_table_states_def Let_def)

text \<open>
  Claim C3, as stated, fails on \<^verbatim>\<open>br_table\<close>, which returns one state for every
  distinct target whose condition is not the literal false and one more for the default.
  With the operands 2, 0, 1, 0 (two branches, to the targets 0 and 1) and a symbolic index
  on the stack, none of the three conditions is a literal, and emulation returns three
  states.
\<close>

theorem br_table_three_states:
  "emulate_control z3_lit env0 ''br_table'' [2, 0, 1, 0] ''br_table 2 0 1 0'' state_x
   = Inr br_table_states \<and> length br_table_states = 3"
  by (simp add: br_table_example simplify_z3) (simp add: br_table_states_def)

text \<open>
  Claim C3, amended. Whenever the emulation of an instruction returns a sequence of
  states, the sequence holds at most two states for every instruction other than
  \<^verbatim>\<open>br_table\<close>, provided the models of the C, Go and WASI library functions, to which
  \<^verbatim>\<open>call\<close> and \<^verbatim>\<open>call_indirect\<close> hand over, return at most two states; for
  \<^verbatim>\<open>br_table\<close> it holds at most one state for every distinct target of the branch list
  and one for the default. (\<^verbatim>\<open>select\<close> may also return \<^verbatim>\<open>None\<close>, which is no
  sequence.)
\<close>

theorem emulate_successor_bound:
  assumes c: "\<forall>n s p r sts. c_emul e n s p r = Inr sts \<longrightarrow> length sts \<le> 2"
    and go: "\<forall>n s p r sts. go_emul e n s p r = Inr sts \<longrightarrow> length sts \<le> 2"
    and wasi: "\<forall>n s p r sts. wasi_emul e n s p r = Inr sts \<longrightarrow> length sts \<le> 2"
  shows "(emulate_arithmetic z n1 s1 = Inr r1 \<longrightarrow> length r1 \<le> 2)
       \<and> (emulate_bitwise z n2 s2 = Inr r2 \<longrightarrow> length r2 \<le> 2)
       \<and> (emulate_constant z n3 s3 = Inr r3 \<longrightarrow> length r3 \<le> 2)
       \<and> (emulate_conversion z n4 s4 = Inr r4 \<longrightarrow> length r4 \<le> 2)
       \<and> (emulate_parametric z n5 s5 = Inr (Some r5) \<longrightarrow> length r5 \<le> 2)
       \<and> (emulate_variable z n6 b6 s6 = Inr r6 \<longrightarrow> length r6 \<le> 2)
       \<and> (n7 \<noteq> ''br_table'' \<and> emulate_control z e n7 ops7 str7 s7 = Inr r7
            \<longrightarrow> length r7 \<le> 2)
       \<and> (emulate_control z e ''br_table'' ops8 str8 s8 = Inr r8
            \<longrightarrow> length r8 \<le> length (remdups (butlast (tl ops8))) + 1)"
proof -
  have "length r1 \<le> 2" if "emulate_arithmetic z n1 s1 = Inr r1"
    using emulate_arithmetic_length [OF that] by simp
  moreover have "length r2 \<le> 2" if "emulate_bitwise z n2 s2 = Inr r2"
    using emulate_bitwise_length [OF that] by simp
  moreover have "length r3 \<le> 2" if "emulate_constant z n3 s3 = Inr r3"
    using emulate_constant_length [OF that] by simp
  moreover have "length r4 \<le> 2" if "emulate_conversion z n4 s4 = Inr r4"
    using emulate_conversion_length [OF that] by simp
  moreover have "length r5 \<le> 2" if "emulate_parametric z n5 s5 = Inr (Some r5)"
    using emulate_parametric_length [OF that] by simp
  moreover have "length r6 \<le> 2" if "emulate_variable z n6 b6 s6 = Inr r6"
    using emulate_variable_length [OF that] by simp
  moreover have "length r7 \<le> 2"
    if "n7 \<noteq> ''br_table''" "emulate_control z e n7 ops7 str7 s7 = Inr r7"
    using emulate_control_length [OF c go wasi that] .
  moreover have "length r8 \<le> length (remdups (butlast (tl ops8))) + 1"
    if "emulate_control z e ''br_table'' ops8 str8 s8 = Inr r8"
    using emulate_br_table_length [of z ops8 s8 r8] that
    by (simp add: emulate_control_br_table)
  ultimately show ?thesis by blast
qed

theorem emulate_successor_bound_witness:
  "emulate_arithmetic z3_num ''i32.add'' state_dense
     = Inr [state_dense\<lparr>symbolic_stack := [App ''bvadd'' (BitVecSort 32) [x32, y32]]\<rparr>]
   \<and> length [state_dense\<lparr>symbolic_stack := [App ''bvadd'' (BitVecSort 32) [x32, y32]]\<rparr>] \<le> 2
   \<and> emulate_bitwise z3_num ''i32.and'' state_dense
     = Inr [state_dense\<lparr>symbolic_stack := [App ''bvand'' (BitVecSort 32) [y32, x32]]\<rparr>]
   \<and> length [state_dense\<lparr>symbolic_stack := [App ''bvand'' (BitVecSort 32) [y32, x32]]\<rparr>] \<le> 2
   \<and> emulate_constant z3_num ''i32.const 1'' state0
     = Inr [state0\<lparr>symbolic_stack := [BitVecNum 1 32]\<rparr>]
   \<and> length [state0\<lparr>symbolic_stack := [BitVecNum 1 32]\<rparr>] \<le> 2
   \<and> emulate_conversion z3_num ''i64.extend_s/i32'' state_x
     = Inr [state0\<lparr>symbolic_stack := [App ''sign_extend_32'' (BitVecSort 64) [x32]]\<rparr>]
   \<and> length [state0\<lparr>symbolic_stack := [App ''sign_extend_32'' (BitVecSort 64) [x32]]\<rparr>] \<le> 2
   \<and> emulate_parametric z3_num ''drop'' state_x = Inr (Some [state0])
   \<and> length [state0] \<le> 2
   \<and> emulate_variable z3_num ''set_local'' [0] state_x = Inr [state0\<lparr>local_var := [(0, x32)]\<rparr>]
   \<and> length [state0\<lparr>local_var := [(0, x32)]\<rparr>] \<le> 2
   \<and> ''br_if'' \<noteq> ''br_table''
   \<and> emulate_control z3_num env0 ''br_if'' [] ''br_if 0'' state_x
     = Inr [state0\<lparr>solver := [x32_ne_0], edge_type := ''conditional_true_0''\<rparr>,
            state0\<lparr>solver := [z3_Not x32_ne_0], edge_type := ''conditional_false_0''\<rparr>]
   \<and> length [state0\<lparr>solver := [x32_ne_0], edge_type := ''conditional_true_0''\<rparr>,
              state0\<lparr>solver := [z3_Not x32_ne_0], edge_type := ''conditional_false_0''\<rparr>] \<le> 2
   \<and> emulate_control z3_num env0 ''br_table'' [2, 0, 1, 0] ''br_table 2 0 1 0'' state_x
     = Inr br_table_states
   \<and> length br_table_states \<le> length (remdups (butlast (tl [2, 0, 1, 0 :: int]))) + 1"
proof -
  have c: "\<forall>n s p r sts. c_emul env0 n s p r = Inr sts \<longrightarrow> length sts \<le> 2"
    by (auto simp: env0_def)
  have go: "\<forall>n s p r sts. go_emul env0 n s p r = Inr sts \<longrightarrow> length sts \<le> 2"
    by (auto simp: env0_def)
  have wasi: "\<forall>n s p r sts. wasi_emul env0 n s p r = Inr sts \<longrightarrow> length sts \<le> 2"
    by (auto simp: env0_def)
  have e1: "emulate_arithmetic z3_num ''i32.add'' state_dense
     = Inr [state_dense\<lparr>symbolic_stack := [App ''bvadd'' (BitVecSort 32) [x32, y32]]\<rparr>]"
    by (simp add: emulate_arithmetic_def do_emulate_arithmetic_int_instruction_def
        state_dense_def pop_def bool_to_bv_def is_bool_def assert_size_def size_of_def
        int_bits_def helper_map_def py_assert_def int_binop_def bv_binop_def x32_def y32_def
        simplify_z3 simplify_lit_def Let_def)
  have e2: "emulate_bitwise z3_num ''i32.and'' state_dense
     = Inr [state_dense\<lparr>symbolic_stack := [App ''bvand'' (BitVecSort 32) [y32, x32]]\<rparr>]"
    by (simp add: emulate_bitwise_def state_dense_def pop_def bitwise_bool_to_bv_def is_bool_def
        bitwise_assert_size_def size_of_def bitwise_bits_def py_assert_def bitwise_op_def
        bv_binop_def x32_def y32_def simplify_z3 simplify_lit_def bool_result_def is_bv_def
        Let_def)
  have e3: "emulate_constant z3_num ''i32.const 1'' state0
     = Inr [state0\<lparr>symbolic_stack := [BitVecNum 1 32]\<rparr>]"
    by (simp add: emulate_constant_def type_prefix_def BitVecVal_str_def z3_num_def
        parse_digit_def BitVecVal_def push_def state0_def Let_def)
  have e4: "emulate_conversion z3_num ''i64.extend_s/i32'' state_x
     = Inr [state0\<lparr>symbolic_stack := [App ''sign_extend_32'' (BitVecSort 64) [x32]]\<rparr>]"
    by (simp add: emulate_conversion_def state_x_def pop_def convert_def assert_bv_def
        size_of_def py_assert_def no_assert_def x32_def simplify_z3 simplify_lit_def Let_def)
  have e5: "emulate_parametric z3_num ''drop'' state_x = Inr (Some [state0])"
    by (simp add: emulate_parametric_def state_x_def pop_def state0_def)
  have e6: "emulate_variable z3_num ''set_local'' [0] state_x
     = Inr [state0\<lparr>local_var := [(0, x32)]\<rparr>]"
    by (simp add: emulate_variable_def strip_marker_def state_x_def pop_def state0_def Let_def)
  have n7: "''br_if'' \<noteq> ''br_table''" by simp
  have cond: "br_condition z3_num x32 = Inr x32_ne_0"
    by (simp add: br_condition_def is_bv_def bv_cmp_int_def BitVecVal_def simplify_z3
        simplify_lit_def x32_def x32_ne_0_def)
  have e7: "emulate_control z3_num env0 ''br_if'' [] ''br_if 0'' state_x
     = Inr [state0\<lparr>solver := [x32_ne_0], edge_type := ''conditional_true_0''\<rparr>,
            state0\<lparr>solver := [z3_Not x32_ne_0], edge_type := ''conditional_false_0''\<rparr>]"
    by (simp add: emulate_control_br_if emulate_br_if_def state_x_def pop_def py_assert_def
        x32_is_bv cond br_if_branches_def x32_ne_0_symbolic no_need_true_def no_need_false_def
        one_time_query_cache_def check_z3_num check_lit_def solver_add_def set_edge_def)
       (simp add: state0_def x32_ne_0_def z3_Not_def)
  have e8: "emulate_control z3_num env0 ''br_table'' [2, 0, 1, 0] ''br_table 2 0 1 0'' state_x
     = Inr br_table_states"
    by (simp add: br_table_example simplify_z3)
  show ?thesis
    using emulate_successor_bound [OF c go wasi,
        where z = z3_num
          and ?n1.0 = "''i32.add''" and ?s1.0 = state_dense
          and ?r1.0 = "[state_dense\<lparr>symbolic_stack := [App ''bvadd'' (BitVecSort 32) [x32, y32]]\<rparr>]"
          and ?n2.0 = "''i32.and''" and ?s2.0 = state_dense
          and ?r2.0 = "[state_dense\<lparr>symbolic_stack := [App ''bvand'' (BitVecSort 32) [y32, x32]]\<rparr>]"
          and ?n3.0 = "''i32.const 1''" and ?s3.0 = state0
          and ?r3.0 = "[state0\<lparr>symbolic_stack := [BitVecNum 1 32]\<rparr>]"
          and ?n4.0 = "''i64.extend_s/i32''" and ?s4.0 = state_x
          and ?r4.0 = "[state0\<lparr>symbolic_stack := [App ''sign_extend_32'' (BitVecSort 64) [x32]]\<rparr>]"
          and ?n5.0 = "''drop''" and ?s5.0 = state_x and ?r5.0 = "[state0]"
          and ?n6.0 = "''set_local''" and ?b6.0 = "[0]" and ?s6.0 = state_x
          and ?r6.0 = "[state0\<lparr>local_var := [(0, x32)]\<rparr>]"
          and ?n7.0 = "''br_if''" and ?ops7.0 = "[]" and ?str7.0 = "''br_if 0''"
          and ?s7.0 = state_x
          and ?r7.0 = "[state0\<lparr>solver := [x32_ne_0], edge_type := ''conditional_true_0''\<rparr>,
                        state0\<lparr>solver := [z3_Not x32_ne_0],
                               edge_type := ''conditional_false_0''\<rparr>]"
          and ?ops8.0 = "[2, 0, 1, 0]" and ?str8.0 = "''br_table 2 0 1 0''"
          and ?s8.0 = state_x and ?r8.0 = br_table_states]
      e1 e2 e3 e4 e5 e6 n7 e7 e8
    by blast
qed

section \<open>Count-leading-zeros, count-trailing-zeros and population count\<close>

text \<open>
  Claim C10. Whatever operand \<open>v\<close> is on top of the stack, \<^verbatim>\<open>i32.clz\<close> and
  \<^verbatim>\<open>i32.ctz\<close> replace it by the 32-bit constant 32, \<^verbatim>\<open>i64.clz\<close> and \<^verbatim>\<open>i64.ctz\<close> by
  the 64-bit constant 64, and \<^verbatim>\<open>popcnt\<close> by the constant 0 of the instruction's
  width. The operand is popped and never inspected, so the result does not depend on it.
\<close>

theorem clz_ctz_popcnt_constant:
  "emulate_arithmetic z ''i32.clz'' (s\<lparr>symbolic_stack := st @ [v]\<rparr>)
     = Inr [s\<lparr>symbolic_stack := st @ [BitVecNum 32 32]\<rparr>]
   \<and> emulate_arithmetic z ''i32.ctz'' (s\<lparr>symbolic_stack := st @ [v]\<rparr>)
     = Inr [s\<lparr>symbolic_stack := st @ [BitVecNum 32 32]\<rparr>]
   \<and> emulate_arithmetic z ''i64.clz'' (s\<lparr>symbolic_stack := st @ [v]\<rparr>)
     = Inr [s\<lparr>symbolic_stack := st @ [BitVecNum 64 64]\<rparr>]
   \<and> emulate_arithmetic z ''i64.ctz'' (s\<lparr>symbolic_stack := st @ [v]\<rparr>)
     = Inr [s\<lparr>symbolic_stack := st @ [BitVecNum 64 64]\<rparr>]
   \<and> emulate_arithmetic z ''i32.popcnt'' (s\<lparr>symbolic_stack := st @ [v]\<rparr>)
     = Inr [s\<lparr>symbolic_stack := st @ [BitVecNum 0 32]\<rparr>]
   \<and> emulate_arithmetic z ''i64.popcnt'' (s\<lparr>symbolic_stack := st @ [v]\<rparr>)
     = Inr [s\<lparr>symbolic_stack := st @ [BitVecNum 0 64]\<rparr>]"
  by (simp add: emulate_arithmetic_def do_emulate_arithmetic_int_instruction_def
        int_bits_def helper_map_def BitVecVal_def)

end
